theory Spec2Isabelle
  imports Main
begin

section \<open>JavaScript strings\<close>

text \<open>
  A JavaScript string is a sequence of UTF-16 code units and \<open>length\<close> counts them.
  The model writes a string as a \<^typ>\<open>string\<close> whose characters are the code units
  \<open>0x00\<close> to \<open>0xFF\<close> (ASCII and Latin-1); strings holding other code units are outside
  the model. Indices are natural numbers; the \<open>-1\<close> of \<open>indexOf\<close> is \<open>None\<close>.
\<close>

definition code_unit :: "char \<Rightarrow> nat" where
  "code_unit c = of_char c"

definition is_space :: "char \<Rightarrow> bool" where
  \<comment> \<open>the regular expression class \<open>\s\<close>, which is also what \<open>trim\<close> removes\<close>
  "is_space c = (let n = code_unit c in (9 \<le> n \<and> n \<le> 13) \<or> n = 32 \<or> n = 160)"

definition is_digit :: "char \<Rightarrow> bool" where
  \<comment> \<open>the class \<open>\d\<close>\<close>
  "is_digit c = (let n = code_unit c in 48 \<le> n \<and> n \<le> 57)"

definition is_word :: "char \<Rightarrow> bool" where
  \<comment> \<open>the class \<open>\w\<close>: \<open>[A-Za-z0-9_]\<close>\<close>
  "is_word c = (let n = code_unit c in
     (48 \<le> n \<and> n \<le> 57) \<or> (65 \<le> n \<and> n \<le> 90) \<or> n = 95 \<or> (97 \<le> n \<and> n \<le> 122))"

definition lower_char :: "char \<Rightarrow> char" where
  \<comment> \<open>the lower-case mapping of Unicode on \<open>U+0000\<close> to \<open>U+00FF\<close>\<close>
  "lower_char c = (let n = code_unit c in
     if (65 \<le> n \<and> n \<le> 90) \<or> (192 \<le> n \<and> n \<le> 222 \<and> n \<noteq> 215) then char_of (n + 32) else c)"

definition toLowerCase :: "string \<Rightarrow> string" where
  "toLowerCase s = map lower_char s"

fun starts_with :: "string \<Rightarrow> string \<Rightarrow> bool" where
  "starts_with [] s = True"
| "starts_with (p # ps) [] = False"
| "starts_with (p # ps) (c # cs) = (p = c \<and> starts_with ps cs)"

fun search_from_start :: "string \<Rightarrow> string \<Rightarrow> nat option" where
  \<comment> \<open>the first position at which the pattern occurs in the string\<close>
  "search_from_start pat [] = (if pat = [] then Some 0 else None)"
| "search_from_start pat (c # cs) =
     (if starts_with pat (c # cs) then Some 0
      else map_option Suc (search_from_start pat cs))"

definition indexOf :: "string \<Rightarrow> string \<Rightarrow> nat \<Rightarrow> nat option" where
  \<comment> \<open>\<open>s.indexOf(pat, from)\<close>; \<open>from\<close> is clamped to the length\<close>
  "indexOf s pat from =
     (let k = min from (length s)
      in map_option (\<lambda>i. i + k) (search_from_start pat (drop k s)))"

definition includes_str :: "string \<Rightarrow> string \<Rightarrow> bool" where
  "includes_str s pat = (indexOf s pat 0 \<noteq> None)"

definition substring :: "string \<Rightarrow> nat \<Rightarrow> nat \<Rightarrow> string" where
  \<comment> \<open>\<open>s.substring(a, b)\<close>: both ends clamped to the length, swapped when \<open>a > b\<close>\<close>
  "substring s a b =
     (let a' = min a (length s); b' = min b (length s);
          lo = min a' b'; hi = max a' b'
      in take (hi - lo) (drop lo s))"

definition substring_from :: "string \<Rightarrow> nat \<Rightarrow> string" where
  \<comment> \<open>\<open>s.substring(a)\<close>\<close>
  "substring_from s a = drop (min a (length s)) s"

definition trim :: "string \<Rightarrow> string" where
  "trim s = rev (dropWhile is_space (rev (dropWhile is_space s)))"

fun join :: "string \<Rightarrow> string list \<Rightarrow> string" where
  \<comment> \<open>\<open>xs.join(sep)\<close>\<close>
  "join sep [] = []"
| "join sep [x] = x"
| "join sep (x # y # ys) = x @ sep @ join sep (y # ys)"

function split_ws :: "string \<Rightarrow> string list" where
  \<comment> \<open>\<open>s.split(/\s+/)\<close>: cut at every maximal run of white space; a run at either end
      leaves an empty string there, and the empty string gives one empty piece\<close>
  "split_ws s =
     (let tok = takeWhile (\<lambda>c. \<not> is_space c) s;
          rest = dropWhile (\<lambda>c. \<not> is_space c) s
      in if rest = [] then [tok] else tok # split_ws (dropWhile is_space rest))"
  by pat_completeness auto
termination
proof (relation "measure length")
  show "wf (measure length)" by simp
next
  fix s :: string and tok rest
  assume r: "rest = dropWhile (\<lambda>c. \<not> is_space c) s" and ne: "rest \<noteq> []"
  from ne have sp: "is_space (hd rest)"
    unfolding r using hd_dropWhile [of "\<lambda>c. \<not> is_space c" s] by simp
  from ne sp have "dropWhile is_space rest = dropWhile is_space (tl rest)"
    by (cases rest) simp_all
  then have "length (dropWhile is_space rest) = length (dropWhile is_space (tl rest))"
    by (rule arg_cong)
  also have "\<dots> \<le> length (tl rest)"
    by (rule length_dropWhile_le)
  also have "\<dots> < length rest" using ne by (cases rest) simp_all
  also have "\<dots> \<le> length s" unfolding r by (rule length_dropWhile_le)
  finally show "(dropWhile is_space rest, s) \<in> measure length" by simp
qed

declare split_ws.simps [simp del]

section \<open>Prompt synthesis\<close>

record ToolResult =
  name :: string
  content :: string

definition prompt_intro :: "string \<Rightarrow> string" where
  \<open>prompt_intro query =
     ''You are an AI assistant that answers questions about GitHub repositories. \<newline>User's question: "''
     @ query @
     ''"\<newline>\<newline>I've gathered the following information about the GitHub repository:\<newline>\<newline>''\<close>

definition prompt_outro :: string where
  \<open>prompt_outro =
     ''Based on the above information, please answer the user's question accurately. \<newline>''
     @ ''Focus only on the information provided and what can be directly inferred from it.\<newline>''
     @ ''If you don't have enough information, acknowledge that limitation.\<newline>''
     @ ''Format your response in a clear, helpful way.''\<close>

definition add_result :: "string \<Rightarrow> ToolResult \<Rightarrow> string" where
  \<comment> \<open>the body of the \<open>forEach\<close> callback, on the prompt built so far\<close>
  "add_result prompt result =
     (let prompt1 = prompt @ ''--- '' @ name result @ '' ---\<newline>'';
          content1 = (if length (content result) > 2000
                      then substring (content result) 0 2000 @ ''... (truncated)''
                      else content result)
      in prompt1 @ content1 @ ''\<newline>\<newline>'')"

definition formatToolResultsForLLM :: "string \<Rightarrow> ToolResult list \<Rightarrow> string" where
  "formatToolResultsForLLM query toolResults =
     foldl add_result (prompt_intro query) toolResults @ prompt_outro"

section \<open>The search string of searchRepositoryContents\<close>

definition searchTerms :: "string \<Rightarrow> string list" where
  "searchTerms query =
     take 3 (filter (\<lambda>term. length term > 3)
       (split_ws (filter (\<lambda>c. is_word c \<or> is_space c) (toLowerCase query))))"

definition searchQuery :: "string \<Rightarrow> string" where
  "searchQuery query =
     (if length (searchTerms query) > 0 then join ''+'' (searchTerms query)
      else ''api+endpoint+feature'')"

subsection \<open>The derivation in the specification's words\<close>




subsection \<open>The derivation with the characters that are kept spelled out\<close>





section \<open>The simulated completion\<close>

text \<open>
  \<open>simulateLLMCall\<close> reads the prompt with four regular expressions and a chain of
  \<open>indexOf\<close>/\<open>substring\<close> calls. \<open>s.match(re)\<close> without the \<open>g\<close> flag gives the leftmost
  match: the expression is tried at position 0, then 1, and so on. Each expression here is a
  literal followed by greedy classes that cannot give back a character to any advantage, so the
  match at one position is a function of the text there. The one-second delay before the
  analysis has no part in the result and is not modelled.
\<close>

fun first_match :: "(string \<Rightarrow> 'a option) \<Rightarrow> string \<Rightarrow> 'a option" where
  \<comment> \<open>leftmost match of an anchored matcher; the result is capture group 1\<close>
  "first_match m [] = m []"
| "first_match m (c # cs) =
     (case m (c # cs) of Some v \<Rightarrow> Some v | None \<Rightarrow> first_match m cs)"

definition after_literal :: "string \<Rightarrow> (string \<Rightarrow> 'a option) \<Rightarrow> string \<Rightarrow> 'a option" where
  "after_literal lit k s = (if starts_with lit s then k (drop (length lit) s) else None)"

definition quoted_value :: "string \<Rightarrow> string option" where
  \<comment> \<open>\<open>"([^"]+)"\<close> at the start of the text\<close>
  \<open>quoted_value s =
     (case s of
        [] \<Rightarrow> None
      | c # r \<Rightarrow>
          if c \<noteq> CHR ''"'' then None
          else (let v = takeWhile (\<lambda>x. x \<noteq> CHR ''"'') r
                in if v = [] \<or> length v = length r then None else Some v))\<close>

definition digits_value :: "string \<Rightarrow> string option" where
  \<comment> \<open>\<open>(\d+)\<close> at the start of the text\<close>
  "digits_value s = (let d = takeWhile is_digit s in if d = [] then None else Some d)"

definition after_spaces :: "(string \<Rightarrow> 'a option) \<Rightarrow> string \<Rightarrow> 'a option" where
  \<comment> \<open>\<open>\s*\<close> before a class that holds no white space\<close>
  "after_spaces k s = k (dropWhile is_space s)"

definition metadataMatch :: "string \<Rightarrow> string option" where
  \<comment> \<open>\<open>prompt.match(/"full_name":\s*"([^"]+)"/)\<close>\<close>
  \<open>metadataMatch prompt =
     first_match (after_literal ''"full_name":'' (after_spaces quoted_value)) prompt\<close>

definition starsMatch :: "string \<Rightarrow> string option" where
  \<comment> \<open>\<open>prompt.match(/"stargazers_count":\s*(\d+)/)\<close>\<close>
  \<open>starsMatch prompt =
     first_match (after_literal ''"stargazers_count":'' (after_spaces digits_value)) prompt\<close>

definition descriptionMatch :: "string \<Rightarrow> string option" where
  \<comment> \<open>\<open>prompt.match(/"description":\s*"([^"]+)"/)\<close>\<close>
  \<open>descriptionMatch prompt =
     first_match (after_literal ''"description":'' (after_spaces quoted_value)) prompt\<close>

definition questionMatch :: "string \<Rightarrow> string option" where
  \<comment> \<open>\<open>prompt.match(/User's question: "([^"]+)"/)\<close>\<close>
  \<open>questionMatch prompt =
     first_match (after_literal ''User's question: '' quoted_value) prompt\<close>

definition question_of :: "string \<Rightarrow> string" where
  \<comment> \<open>\<open>prompt.match(...)?.[1]?.toLowerCase() || ""\<close>\<close>
  "question_of prompt =
     (case questionMatch prompt of None \<Rightarrow> [] | Some q \<Rightarrow> toLowerCase q)"

definition readmeSection_of :: "string \<Rightarrow> string" where
  "readmeSection_of prompt =
     (case indexOf prompt ''fetch_repository_readme'' 0 of
        None \<Rightarrow> []
      | Some i \<Rightarrow>
          (let readmeStart = i + length ''fetch_repository_readme'' + 4
           in case indexOf prompt ''---'' readmeStart of
                None \<Rightarrow> []
              | Some readmeEnd \<Rightarrow>
                  if readmeEnd > readmeStart
                  then trim (substring prompt readmeStart readmeEnd)
                  else []))"

definition section_at :: "string \<Rightarrow> nat \<Rightarrow> string" where
  \<comment> \<open>the slice from a header at \<open>start\<close> up to the next \<open>##\<close> found from \<open>start + 3\<close>,
      or to the end\<close>
  "section_at readmeSection start =
     (case indexOf readmeSection ''##'' (start + 3) of
        Some nextSectionStart \<Rightarrow> substring readmeSection start nextSectionStart
      | None \<Rightarrow> substring_from readmeSection start)"

definition installation_and_run :: "string \<Rightarrow> string" where
  \<comment> \<open>the body of the first branch: \<open>## Installation\<close>, then \<open>## How to run\<close> appended\<close>
  "installation_and_run readmeSection =
     (let relevantContent =
            (case indexOf readmeSection ''## Installation'' 0 of
               None \<Rightarrow> []
             | Some installationStart \<Rightarrow> section_at readmeSection installationStart)
      in case indexOf readmeSection ''## How to run'' 0 of
           None \<Rightarrow> relevantContent
         | Some runStart \<Rightarrow>
             relevantContent @ ''\<newline>\<newline>'' @ section_at readmeSection runStart)"

definition features_section :: "string \<Rightarrow> string" where
  \<comment> \<open>the body of the second branch\<close>
  "features_section readmeSection =
     (case indexOf readmeSection ''## Features'' 0 of
        None \<Rightarrow> []
      | Some featuresStart \<Rightarrow> section_at readmeSection featuresStart)"

definition api_section :: "string \<Rightarrow> string" where
  \<comment> \<open>the body of the third branch\<close>
  "api_section readmeSection =
     (case indexOf readmeSection ''API'' 0 of
        None \<Rightarrow> []
      | Some apiStart \<Rightarrow>
          (case indexOf readmeSection ''##'' apiStart of
             Some nextSectionStart \<Rightarrow> substring readmeSection apiStart nextSectionStart
           | None \<Rightarrow> substring readmeSection apiStart (apiStart + 500)))"

definition relevantContent_of :: "string \<Rightarrow> string \<Rightarrow> string" where
  "relevantContent_of query readmeSection =
     (if includes_str query ''run'' \<or> includes_str query ''install''
         \<or> includes_str query ''setup''
      then installation_and_run readmeSection
      else if includes_str query ''feature'' \<or> includes_str query ''what''
         \<or> includes_str query ''capabilities''
      then features_section readmeSection
      else if includes_str query ''api'' \<or> includes_str query ''endpoint''
      then api_section readmeSection
      else [])"

definition response_text :: "string \<Rightarrow> string \<Rightarrow> string \<Rightarrow> string \<Rightarrow> string" where
  \<open>response_text repoName stars description relevantContent =
     (if relevantContent \<noteq> []
      then ''Based on the GitHub repository '' @ repoName
           @ '', I found this information:\<newline>\<newline>'' @ relevantContent
           @ ''\<newline>\<newline>This repository has '' @ stars
           @ '' stars and is described as: "'' @ description @ ''".''
      else ''The repository '' @ repoName @ '' is a '' @ description @ ''. It has '' @ stars
           @ '' stars on GitHub.\<newline>\<newline>From analyzing the repository's structure and README, it appears to be a framework for building web applications using the Gin framework in Go. It demonstrates patterns for REST APIs, authentication, and database operations.\<newline>\<newline>For more specific information, please ask about particular aspects like installation, features, or API endpoints.'')\<close>

definition simulateLLMCall :: "string \<Rightarrow> string" where
  "simulateLLMCall prompt =
     (let repoName = (case metadataMatch prompt of
                        Some v \<Rightarrow> v | None \<Rightarrow> ''eddycjy/go-gin-example'');
          stars = (case starsMatch prompt of Some v \<Rightarrow> v | None \<Rightarrow> ''many'');
          description = (case descriptionMatch prompt of
                           Some v \<Rightarrow> v
                         | None \<Rightarrow> ''a Go Gin example with useful features'');
          query = question_of prompt;
          readmeSection = readmeSection_of prompt;
          relevantContent = relevantContent_of query readmeSection
      in response_text repoName stars description relevantContent)"

section \<open>Values, HTTP and the outside world\<close>

text \<open>
  A parsed JSON value. Numbers are read for their truth value only and are kept as integers.
  An object is the list of its members; where a key is repeated the last member counts, as
  \<open>JSON.parse\<close> has it. A JavaScript value that may be \<open>undefined\<close> is an
  optional JSON value, \<open>None\<close> being \<open>undefined\<close>.
\<close>

datatype json =
    JNull
  | JBool bool
  | JNum int
  | JStr string
  | JArr "json list"
  | JObj "(string \<times> json) list"

fun truthy :: "json option \<Rightarrow> bool" where
  "truthy None = False"
| "truthy (Some JNull) = False"
| "truthy (Some (JBool b)) = b"
| "truthy (Some (JNum n)) = (n \<noteq> 0)"
| "truthy (Some (JStr s)) = (s \<noteq> [])"
| "truthy (Some (JArr xs)) = True"
| "truthy (Some (JObj kvs)) = True"

datatype js_error =
    FetchFailed \<comment> \<open>\<open>fetch\<close> rejects: the network failed\<close>
  | GitHubAPIError nat \<comment> \<open>\<open>new Error(`GitHub API error: ${response.status}`)\<close>\<close>
  | SyntaxError \<comment> \<open>\<open>json()\<close> on a body that is not JSON\<close>
  | TypeError \<comment> \<open>a property of \<open>null\<close>, a method the value does not have, a value with
      no string form\<close>
  | InvalidCharacterError \<comment> \<open>\<open>atob\<close> on text that is not base64\<close>
  | ExternalError string \<comment> \<open>raised inside Mastra, the MCP client or the model\<close>

fun get_property :: "json \<Rightarrow> string \<Rightarrow> js_error + json option" where
  \<comment> \<open>\<open>v.key\<close>, for the keys the program reads (none of them a property of a string,
      number, boolean or array)\<close>
  "get_property JNull key = Inl TypeError"
| "get_property (JObj kvs) key = Inr (map_of (rev kvs) key)"
| "get_property v key = Inr None"

record response =
  status :: nat
  body :: "json option" \<comment> \<open>\<open>None\<close>: the body is not JSON\<close>

definition ok :: "response \<Rightarrow> bool" where
  "ok r = (200 \<le> status r \<and> status r \<le> 299)"

datatype agent = Agent string

record RuntimeContext =
  repository_owner :: json
  repository_name :: json

record handle =
  githubAgent :: agent
  runtimeContext :: nat \<comment> \<open>the address of the context object\<close>

datatype promise =
    Pending
  | Fulfilled handle
  | Rejected js_error

datatype event =
    Fetch string
  | CreateGitHubAgent
  | Generate agent string RuntimeContext

text \<open>
  What the program does not decide: the network, the construction of the agent, the agent's
  answer, and the built-ins \<open>atob\<close>, \<open>JSON.stringify\<close> and the string conversion of a
  template literal. The outcome of an interaction may depend on how many came before it.
\<close>

record env =
  net :: "nat \<Rightarrow> string \<Rightarrow> response option" \<comment> \<open>\<open>None\<close>: the request fails\<close>
  agent_factory :: "nat \<Rightarrow> js_error + agent"
  agent_generate :: "nat \<Rightarrow> agent \<Rightarrow> string \<Rightarrow> RuntimeContext \<Rightarrow> js_error + string"
  atob :: "string \<Rightarrow> string option" \<comment> \<open>\<open>None\<close>: not base64\<close>
  stringify :: "json \<Rightarrow> string"
  toString :: "json \<Rightarrow> js_error + string"

text \<open>
  The state that outlives a request: the module's one variable, \<open>mastraPromise\<close>, which is
  empty or refers to a promise; the promises made so far, by number; and the context objects,
  by address. A context object is reached through the components that hold its address, so
  that whoever holds the components reads and writes the same object. The trace lists the
  interactions with the environment in the order they happened.
\<close>

record state =
  mastraPromise :: "nat option"
  promises :: "nat \<Rightarrow> promise option"
  contexts :: "nat \<Rightarrow> RuntimeContext"
  next_promise :: nat
  trace :: "event list"

definition fetch :: "env \<Rightarrow> string \<Rightarrow> state \<Rightarrow> response option \<times> state" where
  "fetch e url st = (net e (length (trace st)) url, st\<lparr>trace := trace st @ [Fetch url]\<rparr>)"

section \<open>The fetchers of the fallback pipeline\<close>

definition fetchRepositoryMetadata_try :: "env \<Rightarrow> string \<Rightarrow> state \<Rightarrow> (js_error + json) \<times> state" where
  "fetchRepositoryMetadata_try e repo st =
     (case fetch e (''https://api.github.com/repos/'' @ repo) st of
        (None, st1) \<Rightarrow> (Inl FetchFailed, st1)
      | (Some response, st1) \<Rightarrow>
          if \<not> ok response then (Inl (GitHubAPIError (status response)), st1)
          else (case body response of
                  None \<Rightarrow> (Inl SyntaxError, st1)
                | Some data \<Rightarrow> (Inr data, st1)))"

definition fetchRepositoryMetadata :: "env \<Rightarrow> string \<Rightarrow> state \<Rightarrow> (js_error + json) \<times> state" where
  \<comment> \<open>the \<open>catch\<close> block logs the error and throws it again\<close>
  "fetchRepositoryMetadata e repo st =
     (case fetchRepositoryMetadata_try e repo st of
        (Inl error, st1) \<Rightarrow> (Inl error, st1)
      | (Inr data, st1) \<Rightarrow> (Inr data, st1))"

definition fetchRepositoryReadme_try :: "env \<Rightarrow> string \<Rightarrow> state \<Rightarrow> (js_error + string) \<times> state" where
  "fetchRepositoryReadme_try e repo st =
     (case fetch e (''https://api.github.com/repos/'' @ repo @ ''/readme'') st of
        (None, st1) \<Rightarrow> (Inl FetchFailed, st1)
      | (Some response, st1) \<Rightarrow>
          if \<not> ok response then (Inl (GitHubAPIError (status response)), st1)
          else (case body response of
                  None \<Rightarrow> (Inl SyntaxError, st1)
                | Some data \<Rightarrow>
                    (case get_property data ''content'' of
                       Inl error \<Rightarrow> (Inl error, st1)
                     | Inr c \<Rightarrow>
                         if truthy c
                         then (case c of
                                 Some (JStr s) \<Rightarrow>
                                   (case atob e (filter (\<lambda>x. x \<noteq> CHR ''\<newline>'') s) of
                                      None \<Rightarrow> (Inl InvalidCharacterError, st1)
                                    | Some text \<Rightarrow> (Inr text, st1))
                               | _ \<Rightarrow> (Inl TypeError, st1))
                         else (Inr ''README content not available'', st1))))"

definition fetchRepositoryReadme :: "env \<Rightarrow> string \<Rightarrow> state \<Rightarrow> (js_error + string) \<times> state" where
  "fetchRepositoryReadme e repo st =
     (case fetchRepositoryReadme_try e repo st of
        (Inl error, st1) \<Rightarrow> (Inr ''Could not fetch README content due to an error'', st1)
      | (Inr text, st1) \<Rightarrow> (Inr text, st1))"

definition searchRepositoryContents_try ::
  "env \<Rightarrow> string \<Rightarrow> string \<Rightarrow> state \<Rightarrow> (js_error + json) \<times> state" where
  "searchRepositoryContents_try e repo query st =
     (let searchUrl = ''https://api.github.com/search/code?q='' @ searchQuery query
                      @ ''+repo:'' @ repo
      in case fetch e searchUrl st of
           (None, st1) \<Rightarrow> (Inl FetchFailed, st1)
         | (Some response, st1) \<Rightarrow>
             if \<not> ok response
             then (case fetch e (''https://api.github.com/repos/'' @ repo @ ''/contents'') st1 of
                     (None, st2) \<Rightarrow> (Inl FetchFailed, st2)
                   | (Some fallbackResponse, st2) \<Rightarrow>
                       if \<not> ok fallbackResponse then (Inr (JArr []), st2)
                       else (case body fallbackResponse of
                               None \<Rightarrow> (Inl SyntaxError, st2)
                             | Some listing \<Rightarrow> (Inr listing, st2)))
             else (case body response of
                     None \<Rightarrow> (Inl SyntaxError, st1)
                   | Some data \<Rightarrow>
                       (case get_property data ''items'' of
                          Inl error \<Rightarrow> (Inl error, st1)
                        | Inr items \<Rightarrow>
                            (case items of
                               Some v \<Rightarrow> (Inr (if truthy items then v else JArr []), st1)
                             | None \<Rightarrow> (Inr (JArr []), st1)))))"

definition searchRepositoryContents ::
  "env \<Rightarrow> string \<Rightarrow> string \<Rightarrow> state \<Rightarrow> (js_error + json) \<times> state" where
  "searchRepositoryContents e repo query st =
     (case searchRepositoryContents_try e repo query st of
        (Inl error, st1) \<Rightarrow> (Inr (JArr []), st1)
      | (Inr found, st1) \<Rightarrow> (Inr found, st1))"

definition fetchRepositoryStructure_try :: "env \<Rightarrow> string \<Rightarrow> state \<Rightarrow> (js_error + json) \<times> state" where
  "fetchRepositoryStructure_try e repo st =
     (case fetch e (''https://api.github.com/repos/'' @ repo @ ''/contents'') st of
        (None, st1) \<Rightarrow> (Inl FetchFailed, st1)
      | (Some response, st1) \<Rightarrow>
          if \<not> ok response then (Inl (GitHubAPIError (status response)), st1)
          else (case body response of
                  None \<Rightarrow> (Inl SyntaxError, st1)
                | Some listing \<Rightarrow> (Inr listing, st1)))"

definition fetchRepositoryStructure :: "env \<Rightarrow> string \<Rightarrow> state \<Rightarrow> (js_error + json) \<times> state" where
  "fetchRepositoryStructure e repo st =
     (case fetchRepositoryStructure_try e repo st of
        (Inl error, st1) \<Rightarrow> (Inr (JArr []), st1)
      | (Inr listing, st1) \<Rightarrow> (Inr listing, st1))"

section \<open>The orchestrator and the response\<close>

definition executeGitHubTools ::
  "env \<Rightarrow> string \<Rightarrow> string \<Rightarrow> state \<Rightarrow> (js_error + ToolResult list) \<times> state" where
  \<comment> \<open>one \<open>await\<close> after the other; an error of any of them is logged and thrown again\<close>
  "executeGitHubTools e repo query st =
     (case fetchRepositoryMetadata e repo st of
        (Inl error, st1) \<Rightarrow> (Inl error, st1)
      | (Inr repoMetadata, st1) \<Rightarrow>
          (let results1 = [\<lparr>name = ''fetch_repository_metadata'',
                            content = stringify e repoMetadata\<rparr>]
           in case fetchRepositoryReadme e repo st1 of
                (Inl error, st2) \<Rightarrow> (Inl error, st2)
              | (Inr readmeContent, st2) \<Rightarrow>
                  (let results2 = results1 @ [\<lparr>name = ''fetch_repository_readme'',
                                               content = readmeContent\<rparr>]
                   in case searchRepositoryContents e repo query st2 of
                        (Inl error, st3) \<Rightarrow> (Inl error, st3)
                      | (Inr searchResults, st3) \<Rightarrow>
                          (let results3 = results2 @ [\<lparr>name = ''search_repository_contents'',
                                                       content = stringify e searchResults\<rparr>]
                           in case fetchRepositoryStructure e repo st3 of
                                (Inl error, st4) \<Rightarrow> (Inl error, st4)
                              | (Inr repoStructure, st4) \<Rightarrow>
                                  (Inr (results3 @ [\<lparr>name = ''fetch_repository_structure'',
                                                    content = stringify e repoStructure\<rparr>]),
                                   st4)))))"

definition generateLLMResponse :: "string \<Rightarrow> ToolResult list \<Rightarrow> string" where
  \<comment> \<open>neither the formatting nor the simulated call raises, so the two \<open>catch\<close> blocks
      are never entered\<close>
  "generateLLMResponse query toolResults =
     simulateLLMCall (formatToolResultsForLLM query toolResults)"

section \<open>The request handler\<close>

record reply =
  status_code :: nat
  payload :: json

definition json_reply :: "string \<Rightarrow> string \<Rightarrow> nat \<Rightarrow> reply" where
  \<comment> \<open>\<open>NextResponse.json({key: text}, {status})\<close>\<close>
  "json_reply key text code = \<lparr>status_code = code, payload = JObj [(key, JStr text)]\<rparr>"

definition repository_path :: "env \<Rightarrow> json \<Rightarrow> json \<Rightarrow> js_error + string" where
  \<comment> \<open>\<open>`${owner}/${repo}`\<close>\<close>
  "repository_path e owner repo =
     (case toString e owner of
        Inl error \<Rightarrow> Inl error
      | Inr o_text \<Rightarrow>
          (case toString e repo of
             Inl error \<Rightarrow> Inl error
           | Inr r_text \<Rightarrow> Inr (o_text @ ''/'' @ r_text)))"

definition repoIdentifier_of :: "env \<Rightarrow> json option \<Rightarrow> json option \<Rightarrow> js_error + string" where
  \<comment> \<open>\<open>owner && repo ? `${owner}/${repo}` : "eddycjy/go-gin-example"\<close>\<close>
  "repoIdentifier_of e owner repo =
     (case (owner, repo) of
        (Some ow, Some rp) \<Rightarrow>
          if truthy owner \<and> truthy repo then repository_path e ow rp
          else Inr ''eddycjy/go-gin-example''
      | _ \<Rightarrow> Inr ''eddycjy/go-gin-example'')"

definition fallbackProcessing ::
  "env \<Rightarrow> string \<Rightarrow> json option \<Rightarrow> json option \<Rightarrow> state \<Rightarrow> reply \<times> state" where
  "fallbackProcessing e query owner repo st =
     (let failed = json_reply ''error'' ''Failed to process request in fallback mode'' 500
      in case repoIdentifier_of e owner repo of
           Inl error \<Rightarrow> (failed, st)
         | Inr repoIdentifier \<Rightarrow>
             (case executeGitHubTools e repoIdentifier query st of
                (Inl error, st1) \<Rightarrow> (failed, st1)
              | (Inr toolResults, st1) \<Rightarrow>
                  (json_reply ''response'' (generateLLMResponse query toolResults) 200, st1)))"

definition createDefaultRuntimeContext :: RuntimeContext where
  "createDefaultRuntimeContext =
     \<lparr>repository_owner = JStr ''eddycjy'', repository_name = JStr ''go-gin-example''\<rparr>"

definition initializeMastra :: "state \<Rightarrow> nat \<times> state" where
  \<comment> \<open>the call \<open>initializeMastra().then(...).catch(...)\<close>: the construction of the agent is
      started and the call returns at once with a promise that is still pending\<close>
  "initializeMastra st =
     (let p = next_promise st
      in (p, st\<lparr>promises := (promises st)(p \<mapsto> Pending),
                next_promise := Suc p,
                trace := trace st @ [CreateGitHubAgent]\<rparr>))"

definition getMastraComponents :: "state \<Rightarrow> nat \<times> state" where
  \<comment> \<open>runs without a pause: when the variable is empty the promise of a new construction is
      stored in it before anything is awaited; the result is the promise to await\<close>
  "getMastraComponents st =
     (case mastraPromise st of
        Some p \<Rightarrow> (p, st)
      | None \<Rightarrow>
          (case initializeMastra st of
             (p, st1) \<Rightarrow> (p, st1\<lparr>mastraPromise := Some p\<rparr>)))"

definition settle :: "env \<Rightarrow> nat \<Rightarrow> state \<Rightarrow> state" where
  \<comment> \<open>the construction behind a pending promise comes to its end. \<open>createGitHubAgent\<close>, which
      builds the agent from the MCP tools and the model or, failing that, without the MCP
      tools, and \<open>new Mastra\<close> are the environment's: they give an agent or raise. With an
      agent the promise is fulfilled with it and a fresh default context, kept at the address
      that is the promise's number. With an error the \<open>catch\<close> callback empties the variable
      and the promise is rejected\<close>
  "settle e p st =
     (case promises st p of
        Some Pending \<Rightarrow>
          (case agent_factory e (length (trace st)) of
             Inr a \<Rightarrow>
               st\<lparr>promises := (promises st)(p \<mapsto> Fulfilled \<lparr>githubAgent = a, runtimeContext = p\<rparr>),
                  contexts := (contexts st)(p := createDefaultRuntimeContext)\<rparr>
           | Inl error \<Rightarrow>
               st\<lparr>promises := (promises st)(p \<mapsto> Rejected error), mastraPromise := None\<rparr>)
      | _ \<Rightarrow> st)"

text \<open>
  A request in progress stands at one of the handler's \<open>await\<close>s on the agent's path, with
  what it holds there, or has its reply. Between two \<open>await\<close>s a request runs without
  another one coming in between. The fallback pipeline reads and writes no variable of the
  module, so it is taken in one piece.
\<close>

datatype pc =
    AwaitComponents nat string "json option" "json option"
      \<comment> \<open>at \<open>await getMastraComponents()\<close>: the promise, then query, owner, repo\<close>
  | AwaitProbe handle string "json option" "json option"
      \<comment> \<open>at \<open>await fetch(".../api/version")\<close>, the probe sent, holding the components\<close>
  | AwaitGenerate agent RuntimeContext string "json option" "json option"
      \<comment> \<open>at \<open>await githubAgent.generate(...)\<close>: the agent and what the context object held
          when the call was made\<close>
  | Replied reply

definition fall_back ::
  "env \<Rightarrow> string \<Rightarrow> json option \<Rightarrow> json option \<Rightarrow> state \<Rightarrow> pc \<times> state" where
  \<comment> \<open>\<open>return fallbackProcessing(query, owner, repo)\<close>\<close>
  "fall_back e query owner repo st =
     (case fallbackProcessing e query owner repo st of (r, st1) \<Rightarrow> (Replied r, st1))"

definition POST :: "json option \<Rightarrow> state \<Rightarrow> pc \<times> state" where
  \<comment> \<open>the handler from the arrival of the request to its first \<open>await\<close> on the agent's path.
      The request is its body as \<open>request.json()\<close> parses it; \<open>None\<close>: it does not parse.
      The three properties are read first; the outermost \<open>catch\<close> answers every error
      raised before the agent's path is entered\<close>
  "POST request st =
     (let failed = Replied (json_reply ''error'' ''Failed to process request'' 500);
          invalid = Replied (json_reply ''error'' ''Invalid query parameter'' 400)
      in case request of
           None \<Rightarrow> (failed, st)
         | Some b \<Rightarrow>
             (case get_property b ''query'' of
                Inl error \<Rightarrow> (failed, st)
              | Inr query \<Rightarrow>
                  (case get_property b ''owner'' of
                     Inl error \<Rightarrow> (failed, st)
                   | Inr owner \<Rightarrow>
                       (case get_property b ''repo'' of
                          Inl error \<Rightarrow> (failed, st)
                        | Inr repo \<Rightarrow>
                            (case query of
                               Some (JStr q) \<Rightarrow>
                                 if q = [] then (invalid, st)
                                 else (case getMastraComponents st of
                                         (p, st1) \<Rightarrow> (AwaitComponents p q owner repo, st1))
                             | _ \<Rightarrow> (invalid, st))))))"

definition remember_repository ::
  "json option \<Rightarrow> json option \<Rightarrow> handle \<Rightarrow> state \<Rightarrow> state" where
  \<comment> \<open>\<open>if (owner && repo) { runtimeContext.set(...); runtimeContext.set(...) }\<close>: the two
      values are written into the context object of the components\<close>
  "remember_repository owner repo components st =
     (case (owner, repo) of
        (Some ow, Some rp) \<Rightarrow>
          if truthy owner \<and> truthy repo
          then st\<lparr>contexts := (contexts st)(runtimeContext components :=
                                    \<lparr>repository_owner = ow, repository_name = rp\<rparr>)\<rparr>
          else st
      | _ \<Rightarrow> st)"

definition with_components ::
  "env \<Rightarrow> handle \<Rightarrow> string \<Rightarrow> json option \<Rightarrow> json option \<Rightarrow> state \<Rightarrow> pc \<times> state" where
  \<comment> \<open>from the components to the liveness probe: the repository written into the context,
      the log line that prints it, the probe sent\<close>
  "with_components e components query owner repo st =
     (let st1 = remember_repository owner repo components st;
          ctx = contexts st1 (runtimeContext components)
      in case repository_path e (repository_owner ctx) (repository_name ctx) of
           Inl error \<Rightarrow> fall_back e query owner repo st1
         | Inr logged \<Rightarrow>
             (AwaitProbe components query owner repo,
              st1\<lparr>trace := trace st1 @ [Fetch ''http://localhost:11434/api/version'']\<rparr>))"

definition probe_answered ::
  "env \<Rightarrow> handle \<Rightarrow> string \<Rightarrow> json option \<Rightarrow> json option \<Rightarrow> state \<Rightarrow> pc \<times> state" where
  \<comment> \<open>from the answer of the liveness probe, which the environment gives when it arrives, to
      the call of \<open>githubAgent.generate\<close>, which is handed the context object; the trace
      keeps what the object holds at that moment\<close>
  "probe_answered e components query owner repo st =
     (case net e (length (trace st)) ''http://localhost:11434/api/version'' of
        None \<Rightarrow> fall_back e query owner repo st
      | Some ollamaTest \<Rightarrow>
          if \<not> ok ollamaTest then fall_back e query owner repo st
          else (let a = githubAgent components;
                    ctx = contexts st (runtimeContext components)
                in (AwaitGenerate a ctx query owner repo,
                    st\<lparr>trace := trace st @ [Generate a query ctx]\<rparr>)))"

definition generate_answered ::
  "env \<Rightarrow> agent \<Rightarrow> RuntimeContext \<Rightarrow> string \<Rightarrow> json option \<Rightarrow> json option \<Rightarrow> state
     \<Rightarrow> pc \<times> state" where
  \<comment> \<open>from the agent's answer, which the environment gives when it arrives, to the reply\<close>
  "generate_answered e a ctx query owner repo st =
     (case agent_generate e (length (trace st)) a query ctx of
        Inl error \<Rightarrow> fall_back e query owner repo st
      | Inr text \<Rightarrow> (Replied (json_reply ''response'' text 200), st))"

definition resume :: "env \<Rightarrow> pc \<Rightarrow> state \<Rightarrow> pc \<times> state" where
  \<comment> \<open>a request goes on from where it stands, once what it awaits is there; a request that
      awaits a pending promise, or that has its reply, stays as it is\<close>
  "resume e at st =
     (case at of
        AwaitComponents p query owner repo \<Rightarrow>
          (case promises st p of
             Some (Fulfilled components) \<Rightarrow> with_components e components query owner repo st
           | Some (Rejected error) \<Rightarrow> fall_back e query owner repo st
           | _ \<Rightarrow> (at, st))
      | AwaitProbe components query owner repo \<Rightarrow>
          probe_answered e components query owner repo st
      | AwaitGenerate a ctx query owner repo \<Rightarrow>
          generate_answered e a ctx query owner repo st
      | Replied r \<Rightarrow> (at, st))"

text \<open>
  The requests that the runtime serves at the same time: the module's state, and every
  request by the number of its arrival. One step is the arrival of a request, the end of a
  construction, or one request going on to its next \<open>await\<close>; a run is any list of them, so
  that the runs are all the interleavings.
\<close>

record system =
  shared :: state
  requests :: "pc list"

datatype action =
    Arrive "json option"
  | Settle nat
  | Resume nat

fun step :: "env \<Rightarrow> system \<Rightarrow> action \<Rightarrow> system" where
  "step e sys (Arrive request) =
     (case POST request (shared sys) of
        (at, st) \<Rightarrow> \<lparr>shared = st, requests = requests sys @ [at]\<rparr>)"
| "step e sys (Settle p) = sys\<lparr>shared := settle e p (shared sys)\<rparr>"
| "step e sys (Resume r) =
     (if r < length (requests sys)
      then (case resume e (requests sys ! r) (shared sys) of
              (at, st) \<Rightarrow> \<lparr>shared = st, requests = (requests sys)[r := at]\<rparr>)
      else sys)"

definition run :: "env \<Rightarrow> system \<Rightarrow> action list \<Rightarrow> system" where
  "run e sys actions = foldl (step e) sys actions"

section \<open>The agent's tools\<close>

definition resolve :: "string option \<Rightarrow> json \<Rightarrow> json" where
  \<comment> \<open>\<open>context.owner || runtimeContext.get("repository-owner")\<close>, and the same for the name\<close>
  "resolve given remembered =
     (case given of
        Some s \<Rightarrow> if s \<noteq> [] then JStr s else remembered
      | None \<Rightarrow> remembered)"

definition tool_fetchRepositoryMetadata_try ::
  "env \<Rightarrow> json \<Rightarrow> json \<Rightarrow> state \<Rightarrow> (js_error + json) \<times> state" where
  "tool_fetchRepositoryMetadata_try e owner repo st =
     (case repository_path e owner repo of
        Inl error \<Rightarrow> (Inl error, st)
      | Inr path \<Rightarrow>
          (case fetch e (''https://api.github.com/repos/'' @ path) st of
             (None, st1) \<Rightarrow> (Inl FetchFailed, st1)
           | (Some response, st1) \<Rightarrow>
               if \<not> ok response then (Inl (GitHubAPIError (status response)), st1)
               else (case body response of
                       None \<Rightarrow> (Inl SyntaxError, st1)
                     | Some data \<Rightarrow> (Inr data, st1))))"

definition tool_fetchRepositoryMetadata ::
  "env \<Rightarrow> string option \<Rightarrow> string option \<Rightarrow> RuntimeContext \<Rightarrow> state \<Rightarrow> json \<times> state" where
  \<comment> \<open>\<open>fetchRepositoryMetadata.execute\<close> of the tools module\<close>
  "tool_fetchRepositoryMetadata e given_owner given_repo ctx st =
     (let owner = resolve given_owner (repository_owner ctx);
          repo = resolve given_repo (repository_name ctx)
      in case tool_fetchRepositoryMetadata_try e owner repo st of
           (Inl error, st1) \<Rightarrow>
             (JObj [(''error'', JStr ''Failed to fetch repository metadata'')], st1)
         | (Inr data, st1) \<Rightarrow> (data, st1))"

definition tool_searchRepositoryContents_try ::
  "env \<Rightarrow> json \<Rightarrow> json \<Rightarrow> string \<Rightarrow> state \<Rightarrow> (js_error + json) \<times> state" where
  "tool_searchRepositoryContents_try e owner repo query st =
     (case repository_path e owner repo of
        Inl error \<Rightarrow> (Inl error, st)
      | Inr path \<Rightarrow>
          (let searchUrl = ''https://api.github.com/search/code?q='' @ searchQuery query
                           @ ''+repo:'' @ path
           in case fetch e searchUrl st of
                (None, st1) \<Rightarrow> (Inl FetchFailed, st1)
              | (Some response, st1) \<Rightarrow>
                  if \<not> ok response
                  then (case fetch e (''https://api.github.com/repos/'' @ path @ ''/contents'')
                               st1 of
                          (None, st2) \<Rightarrow> (Inl FetchFailed, st2)
                        | (Some fallbackResponse, st2) \<Rightarrow>
                            if \<not> ok fallbackResponse
                            then (Inr (JObj [(''items'', JArr [])]), st2)
                            else (case body fallbackResponse of
                                    None \<Rightarrow> (Inl SyntaxError, st2)
                                  | Some listing \<Rightarrow>
                                      (Inr (JObj [(''items'', listing),
                                                  (''note'', JStr ''Fallback to repository contents due to search API limitations'')]),
                                       st2)))
                  else (case body response of
                          None \<Rightarrow> (Inl SyntaxError, st1)
                        | Some data \<Rightarrow>
                            (case get_property data ''items'' of
                               Inl error \<Rightarrow> (Inl error, st1)
                             | Inr items \<Rightarrow>
                                 (case items of
                                    Some v \<Rightarrow>
                                      (Inr (JObj [(''items'',
                                                   if truthy items then v else JArr [])]),
                                       st1)
                                  | None \<Rightarrow> (Inr (JObj [(''items'', JArr [])]), st1))))))"

definition tool_searchRepositoryContents ::
  "env \<Rightarrow> string option \<Rightarrow> string option \<Rightarrow> string \<Rightarrow> RuntimeContext \<Rightarrow> state
     \<Rightarrow> json \<times> state" where
  \<comment> \<open>\<open>searchRepositoryContents.execute\<close> of the tools module\<close>
  "tool_searchRepositoryContents e given_owner given_repo query ctx st =
     (let owner = resolve given_owner (repository_owner ctx);
          repo = resolve given_repo (repository_name ctx)
      in case tool_searchRepositoryContents_try e owner repo query st of
           (Inl error, st1) \<Rightarrow>
             (JObj [(''items'', JArr []),
                    (''error'', JStr ''Failed to search repository contents'')], st1)
         | (Inr found, st1) \<Rightarrow> (found, st1))"

section \<open>Notions used in the statements\<close>

definition metadata_url :: "string \<Rightarrow> string" where
  "metadata_url repo = ''https://api.github.com/repos/'' @ repo"
definition readme_url :: "string \<Rightarrow> string" where
  "readme_url repo = ''https://api.github.com/repos/'' @ repo @ ''/readme''"
definition contents_url :: "string \<Rightarrow> string" where
  "contents_url repo = ''https://api.github.com/repos/'' @ repo @ ''/contents''"
definition search_url :: "string \<Rightarrow> string \<Rightarrow> string" where
  "search_url repo query =
     ''https://api.github.com/search/code?q='' @ searchQuery query @ ''+repo:'' @ repo"

definition fetch_fails :: "env \<Rightarrow> state \<Rightarrow> string \<Rightarrow> bool" where
  "fetch_fails e st url =
     (case net e (length (trace st)) url of None \<Rightarrow> True | Some r \<Rightarrow> \<not> ok r)"

definition quiet :: "state \<Rightarrow> state \<Rightarrow> bool" where
  \<comment> \<open>from the first state to the second nothing but the trace has changed, and no
      construction of an agent was started\<close>
  "quiet st st' = (\<exists>evs. st' = st\<lparr>trace := trace st @ evs\<rparr> \<and> CreateGitHubAgent \<notin> set evs)"

definition quoted_pair :: "string \<Rightarrow> string \<Rightarrow> string \<Rightarrow> bool" where
  \<comment> \<open>the text begins with the key, white space if any, and the value between double
      quotes, the value being neither empty nor holding a double quote\<close>
  \<open>quoted_pair key v s =
     (v \<noteq> [] \<and> CHR ''"'' \<notin> set v
      \<and> (\<exists>ws rest. list_all is_space ws \<and> s = key @ ws @ [CHR ''"''] @ v @ [CHR ''"''] @ rest))\<close>

definition number_after :: "string \<Rightarrow> string \<Rightarrow> string \<Rightarrow> bool" where
  \<comment> \<open>the text begins with the key, white space if any, and the number, which is all the
      digits that stand there\<close>
  "number_after key d s =
     (d \<noteq> [] \<and> list_all is_digit d
      \<and> (\<exists>ws rest. list_all is_space ws \<and> s = key @ ws @ d @ rest
                    \<and> (case rest of [] \<Rightarrow> True | c # cs \<Rightarrow> \<not> is_digit c)))"

definition leftmost :: "(string \<Rightarrow> string \<Rightarrow> bool) \<Rightarrow> string \<Rightarrow> string \<Rightarrow> bool" where
  \<comment> \<open>the value is the one found at the first position of the prompt at which any value is
      found\<close>
  "leftmost found prompt v =
     (\<exists>i \<le> length prompt. found v (drop i prompt)
                            \<and> (\<forall>j < i. \<forall>w. \<not> found w (drop j prompt)))"

definition calm :: "state \<Rightarrow> state \<Rightarrow> bool" where
  \<comment> \<open>from the first state to the second the variable and the promises are as they were and
      no construction of an agent was started; context objects may have been written\<close>
  "calm st st' =
     (mastraPromise st' = mastraPromise st \<and> promises st' = promises st
      \<and> next_promise st' = next_promise st
      \<and> (\<exists>evs. trace st' = trace st @ evs \<and> CreateGitHubAgent \<notin> set evs))"

definition one_construction :: "state \<Rightarrow> bool" where
  \<comment> \<open>a promise that is pending is the one the variable refers to, so at most one construction
      is under way; the variable never refers to a rejected promise; the promises are numbered
      below \<open>next_promise\<close>\<close>
  "one_construction st =
     ((\<forall>p. promises st p = Some Pending \<longrightarrow> mastraPromise st = Some p)
      \<and> (\<forall>p. mastraPromise st = Some p
             \<longrightarrow> promises st p = Some Pending \<or> (\<exists>h. promises st p = Some (Fulfilled h)))
      \<and> (\<forall>p. next_promise st \<le> p \<longrightarrow> promises st p = None))"

definition components_cached :: "nat \<Rightarrow> handle \<Rightarrow> state \<Rightarrow> bool" where
  \<comment> \<open>the variable refers to a promise that is fulfilled with the components\<close>
  "components_cached p h st =
     (one_construction st \<and> mastraPromise st = Some p \<and> promises st p = Some (Fulfilled h))"

section \<open>Example inputs\<close>

definition st0 :: state where
  \<comment> \<open>the module as it is loaded: no promise, no context object yet\<close>
  "st0 = \<lparr>mastraPromise = None, promises = (\<lambda>p. None),
          contexts = (\<lambda>c. createDefaultRuntimeContext), next_promise = 0, trace = []\<rparr>"

definition example_env :: "(nat \<Rightarrow> string \<Rightarrow> response option) \<Rightarrow> env" where
  "example_env network =
     \<lparr>net = network,
      agent_factory = (\<lambda>n. Inl (ExternalError ''no agent'')),
      agent_generate = (\<lambda>n a q c. Inl (ExternalError ''no model'')),
      atob = (\<lambda>s. None),
      stringify = (\<lambda>j. ''{}''),
      toString = (\<lambda>j. case j of JStr s \<Rightarrow> Inr s | _ \<Rightarrow> Inr ''[object Object]'')\<rparr>"

definition always_ok :: "nat \<Rightarrow> string \<Rightarrow> response option" where
  "always_ok n url = Some \<lparr>status = 200, body = Some (JObj [])\<rparr>"

definition not_found :: "nat \<Rightarrow> string \<Rightarrow> response option" where
  "not_found n url = Some \<lparr>status = 404, body = None\<rparr>"

definition unreachable :: "nat \<Rightarrow> string \<Rightarrow> response option" where
  "unreachable n url = None"

definition example_listing :: json where
  "example_listing = JArr [JObj [(''name'', JStr ''README.md''), (''type'', JStr ''file'')]]"

definition search_limited :: "nat \<Rightarrow> string \<Rightarrow> response option" where
  \<comment> \<open>the code search is rate limited, everything else answers with the listing\<close>
  "search_limited n url =
     (if starts_with ''https://api.github.com/search/'' url
      then Some \<lparr>status = 403, body = None\<rparr>
      else Some \<lparr>status = 200, body = Some example_listing\<rparr>)"

definition agent_env :: env where
  \<comment> \<open>the agent can be constructed, the model is up and answers\<close>
  "agent_env =
     \<lparr>net = always_ok,
      agent_factory = (\<lambda>n. Inr (Agent ''GitHubAgent'')),
      agent_generate = (\<lambda>n a q c. Inr ''an answer''),
      atob = (\<lambda>s. None),
      stringify = (\<lambda>j. ''{}''),
      toString = (\<lambda>j. case j of JStr s \<Rightarrow> Inr s | _ \<Rightarrow> Inr ''[object Object]'')\<rparr>"

definition flaky_env :: env where
  \<comment> \<open>as \<open>agent_env\<close>, but a construction that ends when one interaction is on the trace
      fails\<close>
  "flaky_env =
     agent_env\<lparr>agent_factory :=
                 (\<lambda>n. if n = 1 then Inl (ExternalError ''no agent'')
                      else Inr (Agent ''GitHubAgent''))\<rparr>"

definition idle :: system where
  "idle = \<lparr>shared = st0, requests = []\<rparr>"

definition request_with_repository :: "json option" where
  "request_with_repository =
     Some (JObj [(''query'', JStr ''How do I run this?''),
                 (''owner'', JStr ''octo''), (''repo'', JStr ''demo'')])"

definition request_without_repository :: "json option" where
  "request_without_repository = Some (JObj [(''query'', JStr ''How do I run this?'')])"

definition request_for_other_repository :: "json option" where
  "request_for_other_repository =
     Some (JObj [(''query'', JStr ''What features does it have?''),
                 (''owner'', JStr ''other''), (''repo'', JStr ''repo'')])"

definition small_prompt :: string where
  \<comment> \<open>the three pairs written with a blank after the colon\<close>
  \<open>small_prompt = ''{"full_name": "octo/demo", "stargazers_count": 42, "description": "a demo repo"}''\<close>

definition compact_prompt :: string where
  \<comment> \<open>the metadata as \<open>JSON.stringify\<close> writes it, after a key with no value in quotes\<close>
  \<open>compact_prompt =
     ''"full_name": null {"full_name":"octo/demo","stargazers_count":42,"description":"a demo repo"}''\<close>

definition demo_question :: string where
  \<open>demo_question = ''compare it with "full_name": "other/repo" please''\<close>

definition demo_metadata :: string where
  \<open>demo_metadata =
     ''{"full_name": "octo/demo", "stargazers_count": 42, "description": "a demo repo"}''\<close>

definition demo_results :: "ToolResult list" where
  "demo_results =
     [\<lparr>name = ''fetch_repository_metadata'', content = demo_metadata\<rparr>,
      \<lparr>name = ''fetch_repository_readme'', content = ''# Demo\<newline>A demo.''\<rparr>,
      \<lparr>name = ''search_repository_contents'', content = ''[]''\<rparr>,
      \<lparr>name = ''fetch_repository_structure'', content = ''[]''\<rparr>]"

definition demo_prompt :: string where
  "demo_prompt = formatToolResultsForLLM demo_question demo_results"

section \<open>Properties of the prompt\<close>

lemma add_result_append: "add_result p r = p @ add_result [] r"
  by (simp add: add_result_def Let_def)

lemma foldl_add_result: "foldl add_result p rs = p @ foldl add_result [] rs"
proof (induction rs arbitrary: p)
  case Nil
  show ?case by simp
next
  case (Cons r rs)
  have "foldl add_result p (r # rs) = foldl add_result (add_result p r) rs" by simp
  also have "\<dots> = add_result p r @ foldl add_result [] rs" by (rule Cons.IH)
  also have "\<dots> = p @ add_result [] r @ foldl add_result [] rs"
    by (subst add_result_append) simp
  also have "add_result [] r @ foldl add_result [] rs = foldl add_result (add_result [] r) rs"
    by (rule Cons.IH [symmetric])
  finally show ?case by simp
qed

lemma substring_0: "substring s 0 n = take n s"
  by (simp add: substring_def Let_def min_def)

lemma format_split:
  "foldl add_result p (pre @ r # post)
   = add_result (foldl add_result p pre) r @ foldl add_result [] post"
proof -
  have "foldl add_result p (pre @ r # post)
        = foldl add_result (add_result (foldl add_result p pre) r) post"
    by simp
  also have "\<dots> = add_result (foldl add_result p pre) r @ foldl add_result [] post"
    by (rule foldl_add_result)
  finally show ?thesis .
qed

text \<open>
  Claim C2. Whatever stands before and after a tool result in the list, the prompt holds the
  result's header line and then its content: the first 2000 characters followed by
  \<open>... (truncated)\<close> when the content is longer than 2000 characters, the content
  unchanged otherwise.
\<close>

theorem truncation_in_prompt:
  "formatToolResultsForLLM query (pre @ r # post) =
     foldl add_result (prompt_intro query) pre
     @ ''--- '' @ name r @ '' ---\<newline>''
     @ (if 2000 < length (content r)
        then take 2000 (content r) @ ''... (truncated)''
        else content r)
     @ ''\<newline>\<newline>'' @ foldl add_result [] post @ prompt_outro"
  unfolding formatToolResultsForLLM_def format_split
  by (simp add: add_result_def Let_def substring_0)

theorem truncation_in_prompt_witness:
  "formatToolResultsForLLM ''q'' [\<lparr>name = ''t'', content = replicate 2001 (CHR ''a'')\<rparr>,
                                  \<lparr>name = ''u'', content = ''short''\<rparr>] =
     prompt_intro ''q'' @ ''--- t ---\<newline>'' @ replicate 2000 (CHR ''a'') @ ''... (truncated)''
     @ ''\<newline>\<newline>--- u ---\<newline>short\<newline>\<newline>'' @ prompt_outro"
  using truncation_in_prompt [of "''q''" "[]"
      "\<lparr>name = ''t'', content = replicate 2001 (CHR ''a'')\<rparr>"
      "[\<lparr>name = ''u'', content = ''short''\<rparr>]"]
  by (simp add: add_result_def)

section \<open>Properties of the search string\<close>



















section \<open>Properties of the simulated completion\<close>

text \<open>
  Claim C7. For every question that contains \<open>install\<close>, the content extracted from the
  README section \<open>## Installation\<newline>Run npm install\<newline>## Usage\<newline>...\<close> is the slice from the
  \<open>## Installation\<close> header up to the next \<open>##\<close>, the latter left out.
\<close>

theorem install_section_extracted:
  assumes "includes_str query ''install''"
  shows "relevantContent_of query ''## Installation\<newline>Run npm install\<newline>## Usage\<newline>...''
         = ''## Installation\<newline>Run npm install\<newline>''"
proof -
  have "installation_and_run ''## Installation\<newline>Run npm install\<newline>## Usage\<newline>...''
        = ''## Installation\<newline>Run npm install\<newline>''"
    by code_simp
  with assms show ?thesis by (simp add: relevantContent_of_def)
qed

theorem install_section_extracted_witness:
  "includes_str ''how do i install it'' ''install''
   \<and> relevantContent_of ''how do i install it''
        ''## Installation\<newline>Run npm install\<newline>## Usage\<newline>...''
      = ''## Installation\<newline>Run npm install\<newline>''"
proof -
  have h: "includes_str ''how do i install it'' ''install''" by code_simp
  from h install_section_extracted [OF h] show ?thesis by simp
qed

text \<open>
  Claim C10. The three keyword groups are tried in order and at most one extraction gives the
  relevant content: the installation and run sections when the question holds \<open>run\<close>,
  \<open>install\<close> or \<open>setup\<close>; otherwise the features section when it holds
  \<open>feature\<close>, \<open>what\<close> or \<open>capabilities\<close>; otherwise the API section when it
  holds \<open>api\<close> or \<open>endpoint\<close>. A question with both \<open>run\<close> and \<open>feature\<close>
  gets nothing from a README that has neither an installation nor a run section, whatever its
  features section says.
\<close>

theorem branches_exclusive:
  "(includes_str q ''run'' \<or> includes_str q ''install'' \<or> includes_str q ''setup''
      \<longrightarrow> relevantContent_of q s = installation_and_run s)
   \<and> (\<not> (includes_str q ''run'' \<or> includes_str q ''install'' \<or> includes_str q ''setup'')
      \<and> (includes_str q ''feature'' \<or> includes_str q ''what'' \<or> includes_str q ''capabilities'')
      \<longrightarrow> relevantContent_of q s = features_section s)
   \<and> (\<not> (includes_str q ''run'' \<or> includes_str q ''install'' \<or> includes_str q ''setup'')
      \<and> \<not> (includes_str q ''feature'' \<or> includes_str q ''what'' \<or> includes_str q ''capabilities'')
      \<and> (includes_str q ''api'' \<or> includes_str q ''endpoint'')
      \<longrightarrow> relevantContent_of q s = api_section s)
   \<and> (includes_str q ''run'' \<and> includes_str q ''feature''
      \<and> indexOf s ''## Installation'' 0 = None \<and> indexOf s ''## How to run'' 0 = None
      \<longrightarrow> relevantContent_of q s = [])"
  by (simp add: relevantContent_of_def installation_and_run_def)

theorem branches_exclusive_witness:
  "includes_str ''run the feature'' ''run'' \<and> includes_str ''run the feature'' ''feature''
   \<and> features_section ''## Features\<newline>- fast\<newline>## License\<newline>MIT''
       = ''## Features\<newline>- fast\<newline>''
   \<and> relevantContent_of ''run the feature'' ''## Features\<newline>- fast\<newline>## License\<newline>MIT'' = []"
proof -
  define q where "q = ''run the feature''"
  define s where "s = ''## Features\<newline>- fast\<newline>## License\<newline>MIT''"
  have a: "includes_str q ''run''" unfolding q_def by code_simp
  have b: "includes_str q ''feature''" unfolding q_def by code_simp
  have c: "indexOf s ''## Installation'' 0 = None" unfolding s_def by code_simp
  have d: "indexOf s ''## How to run'' 0 = None" unfolding s_def by code_simp
  have f: "features_section s = ''## Features\<newline>- fast\<newline>''" unfolding s_def by code_simp
  have r: "includes_str q ''run'' \<and> includes_str q ''feature''
        \<and> indexOf s ''## Installation'' 0 = None \<and> indexOf s ''## How to run'' 0 = None
        \<longrightarrow> relevantContent_of q s = []"
    using branches_exclusive [of q s] by (elim conjE)
  have "relevantContent_of q s = []"
    by (rule mp [OF r]) (intro conjI a b c d)
  with a b f show ?thesis unfolding q_def s_def by (intro conjI)
qed

section \<open>The values in the fallback response\<close>

lemma starts_with_iff: "starts_with p s \<longleftrightarrow> (\<exists>r. s = p @ r)"
  by (induction p s rule: starts_with.induct) auto

lemma indexOf_0: "indexOf s pat 0 = search_from_start pat s"
  by (simp add: indexOf_def option.map_ident)

lemma search_from_start_prefix: "search_from_start x (x @ b) = Some 0"
proof (cases "x @ b")
  case Nil
  then show ?thesis by simp
next
  case (Cons c cs)
  have "starts_with x (x @ b)" by (simp add: starts_with_iff)
  with Cons show ?thesis by simp
qed

lemma search_from_start_append: "search_from_start x (a @ x @ b) \<noteq> None"
proof (induction a)
  case Nil
  show ?case by (simp add: search_from_start_prefix)
next
  case (Cons c a)
  then show ?case by auto
qed

lemma includes_str_append: "includes_str (a @ x @ b) x"
  by (simp add: includes_str_def indexOf_0 search_from_start_append)

lemma generic_response_includes:
  "includes_str (response_text repoName stars description []) repoName
   \<and> includes_str (response_text repoName stars description []) stars
   \<and> includes_str (response_text repoName stars description []) description"
proof (intro conjI)
  let ?r = "response_text repoName stars description []"
  obtain tail where tail: "?r = ''The repository '' @ repoName @ '' is a '' @ description
                                @ ''. It has '' @ stars @ tail"
    by (simp add: response_text_def)
  show "includes_str ?r repoName"
    unfolding tail by (rule includes_str_append)
  have "?r = (''The repository '' @ repoName @ '' is a '') @ description
             @ (''. It has '' @ stars @ tail)"
    unfolding tail by simp
  then show "includes_str ?r description"
    by (simp only: includes_str_append)
  have "?r = (''The repository '' @ repoName @ '' is a '' @ description @ ''. It has '')
             @ stars @ tail"
    unfolding tail by simp
  then show "includes_str ?r stars"
    by (simp only: includes_str_append)
qed

lemma search_from_start_Some:
  "search_from_start p s = Some i \<Longrightarrow> \<exists>a b. s = a @ p @ b"
proof (induction s arbitrary: i)
  case Nil
  then show ?case by (simp split: if_splits)
next
  case (Cons c cs)
  show ?case
  proof (cases "starts_with p (c # cs)")
    case True
    then obtain r where "c # cs = p @ r" by (auto simp: starts_with_iff)
    then have "c # cs = [] @ p @ r" by simp
    then show ?thesis by blast
  next
    case False
    with Cons.prems obtain j where "search_from_start p cs = Some j" by auto
    with Cons.IH obtain a b where "cs = a @ p @ b" by blast
    then have "c # cs = (c # a) @ p @ b" by simp
    then show ?thesis by blast
  qed
qed

lemma includes_str_longer: "includes_str s (x @ y) \<Longrightarrow> includes_str s x"
proof -
  assume "includes_str s (x @ y)"
  then obtain i where "search_from_start (x @ y) s = Some i"
    by (auto simp: includes_str_def indexOf_0)
  then obtain a b where "s = a @ (x @ y) @ b"
    using search_from_start_Some by blast
  then have "s = a @ x @ (y @ b)" by simp
  then show ?thesis by (simp only: includes_str_append)
qed

lemma first_match_iff:
  "first_match m s = Some v
   \<longleftrightarrow> (\<exists>i \<le> length s. m (drop i s) = Some v \<and> (\<forall>j < i. m (drop j s) = None))"
proof (induction s)
  case Nil
  show ?case by simp
next
  case (Cons c cs)
  show ?case
  proof (cases "m (c # cs)")
    case (Some w)
    have "(\<exists>i \<le> length (c # cs). m (drop i (c # cs)) = Some v
             \<and> (\<forall>j < i. m (drop j (c # cs)) = None)) \<longleftrightarrow> w = v"
    proof
      assume "\<exists>i \<le> length (c # cs). m (drop i (c # cs)) = Some v
                \<and> (\<forall>j < i. m (drop j (c # cs)) = None)"
      then obtain i where i: "m (drop i (c # cs)) = Some v" "\<forall>j < i. m (drop j (c # cs)) = None"
        by blast
      have "i = 0"
      proof (rule ccontr)
        assume "i \<noteq> 0"
        then have "0 < i" by simp
        with i(2) have "m (drop 0 (c # cs)) = None" by blast
        with Some show False by simp
      qed
      with i(1) Some show "w = v" by simp
    next
      assume "w = v"
      with Some have "m (drop 0 (c # cs)) = Some v \<and> (\<forall>j < (0::nat). m (drop j (c # cs)) = None)"
        by simp
      then show "\<exists>i \<le> length (c # cs). m (drop i (c # cs)) = Some v
                   \<and> (\<forall>j < i. m (drop j (c # cs)) = None)"
        by blast
    qed
    with Some show ?thesis by simp
  next
    case None
    have "(\<exists>i \<le> length (c # cs). m (drop i (c # cs)) = Some v
             \<and> (\<forall>j < i. m (drop j (c # cs)) = None))
          \<longleftrightarrow> (\<exists>i \<le> length cs. m (drop i cs) = Some v \<and> (\<forall>j < i. m (drop j cs) = None))"
    proof
      assume "\<exists>i \<le> length (c # cs). m (drop i (c # cs)) = Some v
                \<and> (\<forall>j < i. m (drop j (c # cs)) = None)"
      then obtain i where i: "i \<le> length (c # cs)" "m (drop i (c # cs)) = Some v"
        "\<forall>j < i. m (drop j (c # cs)) = None"
        by blast
      from i(2) None have "i \<noteq> 0" by (cases i) auto
      then obtain i' where i': "i = Suc i'" by (cases i) auto
      have "\<forall>j < i'. m (drop j cs) = None"
      proof (intro allI impI)
        fix j assume "j < i'"
        then have "Suc j < i" by (simp add: i')
        with i(3) have "m (drop (Suc j) (c # cs)) = None" by blast
        then show "m (drop j cs) = None" by simp
      qed
      with i(1,2) i' have "i' \<le> length cs \<and> m (drop i' cs) = Some v
                           \<and> (\<forall>j < i'. m (drop j cs) = None)"
        by simp
      then show "\<exists>i \<le> length cs. m (drop i cs) = Some v \<and> (\<forall>j < i. m (drop j cs) = None)"
        by blast
    next
      assume "\<exists>i \<le> length cs. m (drop i cs) = Some v \<and> (\<forall>j < i. m (drop j cs) = None)"
      then obtain i where i: "i \<le> length cs" "m (drop i cs) = Some v"
        "\<forall>j < i. m (drop j cs) = None"
        by blast
      have "\<forall>j < Suc i. m (drop j (c # cs)) = None"
      proof (intro allI impI)
        fix j assume j: "j < Suc i"
        show "m (drop j (c # cs)) = None"
        proof (cases j)
          case 0
          with None show ?thesis by simp
        next
          case (Suc j')
          with j have "j' < i" by simp
          with i(3) have "m (drop j' cs) = None" by blast
          with Suc show ?thesis by simp
        qed
      qed
      with i(1,2) have "Suc i \<le> length (c # cs) \<and> m (drop (Suc i) (c # cs)) = Some v
                        \<and> (\<forall>j < Suc i. m (drop j (c # cs)) = None)"
        by simp
      then show "\<exists>i \<le> length (c # cs). m (drop i (c # cs)) = Some v
                   \<and> (\<forall>j < i. m (drop j (c # cs)) = None)"
        by blast
    qed
    with None Cons.IH show ?thesis by simp
  qed
qed

lemma leftmost_first_match:
  assumes "\<And>w s. found w s \<longleftrightarrow> m s = Some w"
  shows "leftmost found prompt v \<longleftrightarrow> first_match m prompt = Some v"
proof -
  have "\<And>s. (\<forall>w. \<not> found w s) \<longleftrightarrow> m s = None"
    by (simp add: assms)
  then show ?thesis
    by (simp add: leftmost_def first_match_iff assms)
qed

lemma quote_not_space: \<open>\<not> is_space CHR ''"''\<close>
  by (simp add: is_space_def code_unit_def)

lemma digit_not_space: "is_digit c \<Longrightarrow> \<not> is_space c"
  by (auto simp: is_digit_def is_space_def Let_def)

lemma dropWhile_spaces:
  "list_all is_space ws \<Longrightarrow> \<not> is_space c \<Longrightarrow> dropWhile is_space (ws @ c # r) = c # r"
  by (induction ws) simp_all

lemma quoted_value_iff:
  \<open>quoted_value s = Some v
   \<longleftrightarrow> v \<noteq> [] \<and> CHR ''"'' \<notin> set v \<and> (\<exists>rest. s = [CHR ''"''] @ v @ [CHR ''"''] @ rest)\<close>
proof
  assume q: "quoted_value s = Some v"
  then obtain r where s: \<open>s = CHR ''"'' # r\<close>
    by (cases s) (auto simp: quoted_value_def split: if_splits)
  from q have v: \<open>v = takeWhile (\<lambda>x. x \<noteq> CHR ''"'') r\<close> "v \<noteq> []" "length v \<noteq> length r"
    by (auto simp: quoted_value_def s Let_def split: if_splits)
  define d where \<open>d = dropWhile (\<lambda>x. x \<noteq> CHR ''"'') r\<close>
  have r: "r = v @ d" by (simp add: v(1) d_def)
  with v(3) have "d \<noteq> []" by auto
  then have \<open>hd d = CHR ''"''\<close>
    unfolding d_def using hd_dropWhile [of \<open>\<lambda>x. x \<noteq> CHR ''"''\<close> r] by simp
  with \<open>d \<noteq> []\<close> obtain rest where d: \<open>d = CHR ''"'' # rest\<close> by (cases d) auto
  have \<open>CHR ''"'' \<notin> set v\<close>
    unfolding v(1) by (auto dest: set_takeWhileD)
  with v(2) s r d show
    \<open>v \<noteq> [] \<and> CHR ''"'' \<notin> set v \<and> (\<exists>rest. s = [CHR ''"''] @ v @ [CHR ''"''] @ rest)\<close>
    by simp
next
  assume \<open>v \<noteq> [] \<and> CHR ''"'' \<notin> set v \<and> (\<exists>rest. s = [CHR ''"''] @ v @ [CHR ''"''] @ rest)\<close>
  then obtain rest where v: "v \<noteq> []" \<open>CHR ''"'' \<notin> set v\<close>
    and s: \<open>s = CHR ''"'' # v @ CHR ''"'' # rest\<close>
    by auto
  from v(2) have \<open>takeWhile (\<lambda>x. x \<noteq> CHR ''"'') (v @ CHR ''"'' # rest) = v\<close>
    by (induction v) auto
  with v(1) show "quoted_value s = Some v"
    by (simp add: quoted_value_def s Let_def)
qed

lemma digits_value_iff:
  "digits_value s = Some d
   \<longleftrightarrow> d \<noteq> [] \<and> list_all is_digit d
       \<and> (\<exists>rest. s = d @ rest \<and> (case rest of [] \<Rightarrow> True | c # cs \<Rightarrow> \<not> is_digit c))"
proof
  assume q: "digits_value s = Some d"
  then have d: "d = takeWhile is_digit s" "d \<noteq> []"
    by (auto simp: digits_value_def Let_def split: if_splits)
  define rest where "rest = dropWhile is_digit s"
  have s: "s = d @ rest" by (simp add: d(1) rest_def)
  have "case rest of [] \<Rightarrow> True | c # cs \<Rightarrow> \<not> is_digit c"
  proof (cases rest)
    case Nil
    then show ?thesis by simp
  next
    case (Cons c cs)
    then have "rest \<noteq> []" by simp
    then have "\<not> is_digit (hd rest)"
      unfolding rest_def using hd_dropWhile [of is_digit s] by simp
    with Cons show ?thesis by simp
  qed
  moreover have "list_all is_digit d"
    unfolding d(1) by (auto simp: list_all_iff dest: set_takeWhileD)
  ultimately show "d \<noteq> [] \<and> list_all is_digit d
       \<and> (\<exists>rest. s = d @ rest \<and> (case rest of [] \<Rightarrow> True | c # cs \<Rightarrow> \<not> is_digit c))"
    using d(2) s by blast
next
  assume "d \<noteq> [] \<and> list_all is_digit d
       \<and> (\<exists>rest. s = d @ rest \<and> (case rest of [] \<Rightarrow> True | c # cs \<Rightarrow> \<not> is_digit c))"
  then obtain rest where d: "d \<noteq> []" "list_all is_digit d" and s: "s = d @ rest"
    and r: "case rest of [] \<Rightarrow> True | c # cs \<Rightarrow> \<not> is_digit c"
    by auto
  from d(2) r have "takeWhile is_digit (d @ rest) = d"
    by (induction d) (auto split: list.splits)
  with d(1) show "digits_value s = Some d"
    by (simp add: digits_value_def s Let_def)
qed

lemma spaces_then:
  assumes "\<And>r. k r \<noteq> None \<Longrightarrow> r \<noteq> [] \<and> \<not> is_space (hd r)"
  shows "after_spaces k s = Some v
         \<longleftrightarrow> (\<exists>ws r. list_all is_space ws \<and> s = ws @ r \<and> k r = Some v)"
proof
  assume a: "after_spaces k s = Some v"
  have "s = takeWhile is_space s @ dropWhile is_space s" by simp
  moreover have "list_all is_space (takeWhile is_space s)"
    by (auto simp: list_all_iff dest: set_takeWhileD)
  moreover from a have "k (dropWhile is_space s) = Some v" by (simp add: after_spaces_def)
  ultimately show "\<exists>ws r. list_all is_space ws \<and> s = ws @ r \<and> k r = Some v" by blast
next
  assume "\<exists>ws r. list_all is_space ws \<and> s = ws @ r \<and> k r = Some v"
  then obtain ws r where ws: "list_all is_space ws" and s: "s = ws @ r" and k: "k r = Some v"
    by blast
  from k assms [of r] have "r \<noteq> []" "\<not> is_space (hd r)" by auto
  then obtain c cs where r: "r = c # cs" "\<not> is_space c" by (cases r) auto
  from dropWhile_spaces [OF ws r(2), of cs] k show "after_spaces k s = Some v"
    by (simp add: after_spaces_def s r(1))
qed

lemma after_literal_iff:
  "after_literal lit k s = Some v \<longleftrightarrow> (\<exists>r. s = lit @ r \<and> k r = Some v)"
  by (auto simp: after_literal_def starts_with_iff)

lemma quoted_pair_iff:
  "quoted_pair key v s \<longleftrightarrow> after_literal key (after_spaces quoted_value) s = Some v"
proof -
  have q: "\<And>r. quoted_value r \<noteq> None \<Longrightarrow> r \<noteq> [] \<and> \<not> is_space (hd r)"
  proof -
    fix r assume "quoted_value r \<noteq> None"
    then obtain w where "quoted_value r = Some w" by auto
    then obtain rest where \<open>r = [CHR ''"''] @ w @ [CHR ''"''] @ rest\<close>
      unfolding quoted_value_iff by blast
    then show "r \<noteq> [] \<and> \<not> is_space (hd r)" by (simp add: quote_not_space)
  qed
  have A: "\<And>r w. after_spaces quoted_value r = Some w
                 \<longleftrightarrow> (\<exists>ws r'. list_all is_space ws \<and> r = ws @ r' \<and> quoted_value r' = Some w)"
    using q by (rule spaces_then)
  show ?thesis
  proof
    assume "quoted_pair key v s"
    then obtain ws rest where v: "v \<noteq> []" \<open>CHR ''"'' \<notin> set v\<close> and ws: "list_all is_space ws"
      and s: \<open>s = key @ ws @ [CHR ''"''] @ v @ [CHR ''"''] @ rest\<close>
      unfolding quoted_pair_def by blast
    from v have \<open>quoted_value ([CHR ''"''] @ v @ [CHR ''"''] @ rest) = Some v\<close>
      unfolding quoted_value_iff by blast
    with ws have \<open>after_spaces quoted_value (ws @ [CHR ''"''] @ v @ [CHR ''"''] @ rest) = Some v\<close>
      unfolding A by blast
    with s show "after_literal key (after_spaces quoted_value) s = Some v"
      unfolding after_literal_iff by blast
  next
    assume "after_literal key (after_spaces quoted_value) s = Some v"
    then obtain r where s: "s = key @ r" and "after_spaces quoted_value r = Some v"
      unfolding after_literal_iff by blast
    then obtain ws r' where ws: "list_all is_space ws" and r: "r = ws @ r'"
      and "quoted_value r' = Some v"
      unfolding A by blast
    then obtain rest where v: "v \<noteq> []" \<open>CHR ''"'' \<notin> set v\<close>
      and r': \<open>r' = [CHR ''"''] @ v @ [CHR ''"''] @ rest\<close>
      unfolding quoted_value_iff by blast
    from s r r' have \<open>s = key @ ws @ [CHR ''"''] @ v @ [CHR ''"''] @ rest\<close> by simp
    with v ws show "quoted_pair key v s"
      unfolding quoted_pair_def by blast
  qed
qed

lemma number_after_iff:
  "number_after key d s \<longleftrightarrow> after_literal key (after_spaces digits_value) s = Some d"
proof -
  have q: "\<And>r. digits_value r \<noteq> None \<Longrightarrow> r \<noteq> [] \<and> \<not> is_space (hd r)"
  proof -
    fix r assume "digits_value r \<noteq> None"
    then obtain w where "digits_value r = Some w" by auto
    then obtain rest where w: "w \<noteq> []" "list_all is_digit w" "r = w @ rest"
      unfolding digits_value_iff by blast
    then obtain c cs where "w = c # cs" by (cases w) auto
    with w show "r \<noteq> [] \<and> \<not> is_space (hd r)" by (simp add: digit_not_space)
  qed
  have A: "\<And>r w. after_spaces digits_value r = Some w
                 \<longleftrightarrow> (\<exists>ws r'. list_all is_space ws \<and> r = ws @ r' \<and> digits_value r' = Some w)"
    using q by (rule spaces_then)
  show ?thesis
  proof
    assume "number_after key d s"
    then obtain ws rest where d: "d \<noteq> []" "list_all is_digit d" and ws: "list_all is_space ws"
      and s: "s = key @ ws @ d @ rest"
      and rest: "case rest of [] \<Rightarrow> True | c # cs \<Rightarrow> \<not> is_digit c"
      unfolding number_after_def by blast
    from d rest have "digits_value (d @ rest) = Some d"
      unfolding digits_value_iff by blast
    with ws have "after_spaces digits_value (ws @ d @ rest) = Some d"
      unfolding A by blast
    with s show "after_literal key (after_spaces digits_value) s = Some d"
      unfolding after_literal_iff by blast
  next
    assume "after_literal key (after_spaces digits_value) s = Some d"
    then obtain r where s: "s = key @ r" and "after_spaces digits_value r = Some d"
      unfolding after_literal_iff by blast
    then obtain ws r' where ws: "list_all is_space ws" and r: "r = ws @ r'"
      and "digits_value r' = Some d"
      unfolding A by blast
    then obtain rest where d: "d \<noteq> []" "list_all is_digit d"
      and r': "r' = d @ rest" and rest: "case rest of [] \<Rightarrow> True | c # cs \<Rightarrow> \<not> is_digit c"
      unfolding digits_value_iff by blast
    from s r r' have "s = key @ ws @ d @ rest" by simp
    with d ws rest show "number_after key d s"
      unfolding number_after_def by blast
  qed
qed

lemma leftmost_metadataMatch:
  \<open>leftmost (quoted_pair ''"full_name":'') prompt v \<longleftrightarrow> metadataMatch prompt = Some v\<close>
  unfolding metadataMatch_def by (rule leftmost_first_match) (rule quoted_pair_iff)

lemma leftmost_descriptionMatch:
  \<open>leftmost (quoted_pair ''"description":'') prompt v \<longleftrightarrow> descriptionMatch prompt = Some v\<close>
  unfolding descriptionMatch_def by (rule leftmost_first_match) (rule quoted_pair_iff)

lemma leftmost_starsMatch:
  \<open>leftmost (number_after ''"stargazers_count":'') prompt v \<longleftrightarrow> starsMatch prompt = Some v\<close>
  unfolding starsMatch_def by (rule leftmost_first_match) (rule number_after_iff)


text \<open>
  Claim C8, amended. Each of the three expressions takes its leftmost match: the first place
  of the prompt at which the key stands, followed by white space if any and by a value of the
  right form. When the leftmost match for \<open>"full_name":\<close> has the value \<open>octo/demo\<close>,
  the leftmost match for \<open>"stargazers_count":\<close> has a number that begins with \<open>42\<close> and
  the leftmost match for \<open>"description":\<close> has the value \<open>a demo repo\<close>, and no README
  section matches the question, the response holds the three values.
\<close>

theorem fallback_response_values:
  assumes \<open>leftmost (quoted_pair ''"full_name":'') prompt ''octo/demo''\<close>
    and \<open>leftmost (number_after ''"stargazers_count":'') prompt stars\<close>
    and "starts_with ''42'' stars"
    and \<open>leftmost (quoted_pair ''"description":'') prompt ''a demo repo''\<close>
    and "relevantContent_of (question_of prompt) (readmeSection_of prompt) = []"
  shows "includes_str (simulateLLMCall prompt) ''octo/demo''
         \<and> includes_str (simulateLLMCall prompt) ''42''
         \<and> includes_str (simulateLLMCall prompt) ''a demo repo''"
proof -
  from assms(1) have m: "metadataMatch prompt = Some ''octo/demo''"
    by (simp only: leftmost_metadataMatch)
  from assms(4) have d: "descriptionMatch prompt = Some ''a demo repo''"
    by (simp only: leftmost_descriptionMatch)
  from assms(2) have s: "starsMatch prompt = Some stars"
    by (simp only: leftmost_starsMatch)
  from assms(3) obtain more where more: "stars = ''42'' @ more"
    unfolding starts_with_iff by blast
  have "simulateLLMCall prompt = response_text ''octo/demo'' stars ''a demo repo'' []"
    by (simp add: simulateLLMCall_def Let_def m d s assms(5))
  then have r: "simulateLLMCall prompt
                  = response_text ''octo/demo'' (''42'' @ more) ''a demo repo'' []"
    by (simp only: more)
  have "includes_str (simulateLLMCall prompt) (''42'' @ more)"
    unfolding r using generic_response_includes by blast
  then have "includes_str (simulateLLMCall prompt) ''42''"
    by (rule includes_str_longer)
  then show ?thesis
    unfolding r using generic_response_includes by blast
qed

theorem fallback_response_values_witness:
  \<open>leftmost (quoted_pair ''"full_name":'') compact_prompt ''octo/demo''
   \<and> leftmost (number_after ''"stargazers_count":'') compact_prompt ''42''
   \<and> starts_with ''42'' ''42''
   \<and> leftmost (quoted_pair ''"description":'') compact_prompt ''a demo repo''
   \<and> relevantContent_of (question_of compact_prompt) (readmeSection_of compact_prompt) = []
   \<and> includes_str (simulateLLMCall compact_prompt) ''octo/demo''
   \<and> includes_str (simulateLLMCall compact_prompt) ''42''
   \<and> includes_str (simulateLLMCall compact_prompt) ''a demo repo''
   \<and> leftmost (quoted_pair ''"full_name":'') small_prompt ''octo/demo''
   \<and> leftmost (number_after ''"stargazers_count":'') small_prompt ''42''
   \<and> leftmost (quoted_pair ''"description":'') small_prompt ''a demo repo''
   \<and> relevantContent_of (question_of small_prompt) (readmeSection_of small_prompt) = []
   \<and> includes_str (simulateLLMCall small_prompt) ''octo/demo''
   \<and> includes_str (simulateLLMCall small_prompt) ''42''
   \<and> includes_str (simulateLLMCall small_prompt) ''a demo repo''\<close>
proof -
  have "metadataMatch compact_prompt = Some ''octo/demo''"
    unfolding compact_prompt_def by code_simp
  then have h1: \<open>leftmost (quoted_pair ''"full_name":'') compact_prompt ''octo/demo''\<close>
    by (simp only: leftmost_metadataMatch)
  have "starsMatch compact_prompt = Some ''42''"
    unfolding compact_prompt_def by code_simp
  then have h2: \<open>leftmost (number_after ''"stargazers_count":'') compact_prompt ''42''\<close>
    by (simp only: leftmost_starsMatch)
  have h3: "starts_with ''42'' ''42''" by simp
  have "descriptionMatch compact_prompt = Some ''a demo repo''"
    unfolding compact_prompt_def by code_simp
  then have h4: \<open>leftmost (quoted_pair ''"description":'') compact_prompt ''a demo repo''\<close>
    by (simp only: leftmost_descriptionMatch)
  have h5: "relevantContent_of (question_of compact_prompt) (readmeSection_of compact_prompt) = []"
    unfolding compact_prompt_def by code_simp
  have "metadataMatch small_prompt = Some ''octo/demo''"
    unfolding small_prompt_def by code_simp
  then have g1: \<open>leftmost (quoted_pair ''"full_name":'') small_prompt ''octo/demo''\<close>
    by (simp only: leftmost_metadataMatch)
  have "starsMatch small_prompt = Some ''42''"
    unfolding small_prompt_def by code_simp
  then have g2: \<open>leftmost (number_after ''"stargazers_count":'') small_prompt ''42''\<close>
    by (simp only: leftmost_starsMatch)
  have "descriptionMatch small_prompt = Some ''a demo repo''"
    unfolding small_prompt_def by code_simp
  then have g4: \<open>leftmost (quoted_pair ''"description":'') small_prompt ''a demo repo''\<close>
    by (simp only: leftmost_descriptionMatch)
  have g5: "relevantContent_of (question_of small_prompt) (readmeSection_of small_prompt) = []"
    unfolding small_prompt_def by code_simp
  from fallback_response_values [OF h1 h2 h3 h4 h5] fallback_response_values [OF g1 g2 h3 g4 g5]
    h1 h2 h3 h4 h5 g1 g2 g4 g5
  show ?thesis by (intro conjI) (elim conjE, assumption)+
qed

lemma content_in_prompt:
  assumes "length (content r) \<le> 2000"
  shows "\<exists>a b. formatToolResultsForLLM q (pre @ r # post) = a @ content r @ b"
proof -
  have "formatToolResultsForLLM q (pre @ r # post)
        = (foldl add_result (prompt_intro q) pre @ ''--- '' @ name r @ '' ---\<newline>'')
          @ content r @ (''\<newline>\<newline>'' @ foldl add_result [] post @ prompt_outro)"
    unfolding formatToolResultsForLLM_def format_split
    using assms by (simp add: add_result_def)
  then show ?thesis by blast
qed

lemma includes_str_within:
  assumes "includes_str t x" and "s = a @ t @ b"
  shows "includes_str s x"
proof -
  from assms(1) obtain i where "search_from_start x t = Some i"
    by (auto simp: includes_str_def indexOf_0)
  then obtain c d where "t = c @ x @ d"
    using search_from_start_Some by blast
  with assms(2) have "s = (a @ c) @ x @ (d @ b)" by simp
  then show ?thesis by (simp only: includes_str_append)
qed

lemma demo_prompt_holds_metadata: "\<exists>a b. demo_prompt = a @ demo_metadata @ b"
proof -
  have "length (content \<lparr>name = ''fetch_repository_metadata'', content = demo_metadata\<rparr>) \<le> 2000"
    by (simp add: demo_metadata_def)
  from content_in_prompt [OF this, of demo_question "[]"]
  show ?thesis by (simp add: demo_prompt_def demo_results_def)
qed

lemma demo_question_of: "question_of demo_prompt = ''compare it with ''"
  unfolding demo_prompt_def by code_simp

lemma demo_readmeSection: "readmeSection_of demo_prompt = ''# Demo\<newline>A demo.''"
  unfolding demo_prompt_def by code_simp

lemma demo_metadataMatch: "metadataMatch demo_prompt = Some ''other/repo''"
  unfolding demo_prompt_def by code_simp

lemma demo_starsMatch: "starsMatch demo_prompt = Some ''42''"
  unfolding demo_prompt_def by code_simp

lemma demo_descriptionMatch: "descriptionMatch demo_prompt = Some ''a demo repo''"
  unfolding demo_prompt_def by code_simp

lemma demo_relevantContent:
  "relevantContent_of (question_of demo_prompt) (readmeSection_of demo_prompt) = []"
  unfolding demo_question_of demo_readmeSection by code_simp

lemma demo_response:
  "simulateLLMCall demo_prompt = response_text ''other/repo'' ''42'' ''a demo repo'' []"
  by (simp add: simulateLLMCall_def Let_def demo_metadataMatch demo_starsMatch
      demo_descriptionMatch demo_relevantContent)

text \<open>
  Claim C8 as stated fails: it is not enough that the prompt contains the three texts. The
  prompt below is what the synthesizer builds for a question that itself quotes a
  \<open>"full_name"\<close> pair; it contains the three texts of the claim, no README section matches
  the question, and the response names \<open>other/repo\<close>, not \<open>octo/demo\<close>.
\<close>

theorem fallback_response_counterexample:
  \<open>includes_str demo_prompt ''"full_name": "octo/demo"''
   \<and> includes_str demo_prompt ''"stargazers_count": 42''
   \<and> includes_str demo_prompt ''"description": "a demo repo"''
   \<and> relevantContent_of (question_of demo_prompt) (readmeSection_of demo_prompt) = []
   \<and> \<not> includes_str (simulateLLMCall demo_prompt) ''octo/demo''\<close>
proof (intro conjI)
  obtain a b where ab: "demo_prompt = a @ demo_metadata @ b"
    using demo_prompt_holds_metadata by blast
  have \<open>includes_str demo_metadata ''"full_name": "octo/demo"''\<close>
    unfolding demo_metadata_def by code_simp
  then show \<open>includes_str demo_prompt ''"full_name": "octo/demo"''\<close>
    using ab by (rule includes_str_within)
  have \<open>includes_str demo_metadata ''"stargazers_count": 42''\<close>
    unfolding demo_metadata_def by code_simp
  then show \<open>includes_str demo_prompt ''"stargazers_count": 42''\<close>
    using ab by (rule includes_str_within)
  have \<open>includes_str demo_metadata ''"description": "a demo repo"''\<close>
    unfolding demo_metadata_def by code_simp
  then show \<open>includes_str demo_prompt ''"description": "a demo repo"''\<close>
    using ab by (rule includes_str_within)
  show "relevantContent_of (question_of demo_prompt) (readmeSection_of demo_prompt) = []"
    by (rule demo_relevantContent)
  show "\<not> includes_str (simulateLLMCall demo_prompt) ''octo/demo''"
    unfolding demo_response by code_simp
qed


section \<open>Properties of the fetchers, the orchestrator and the handler\<close>

lemma fetchRepositoryMetadata_trace:
  "fetchRepositoryMetadata e repo st = (r, st')
   \<Longrightarrow> st' = st\<lparr>trace := trace st @ [Fetch (metadata_url repo)]\<rparr>"
  by (auto simp: fetchRepositoryMetadata_def fetchRepositoryMetadata_try_def fetch_def
      metadata_url_def split: option.splits if_splits sum.splits prod.splits)

lemma fetchRepositoryReadme_returns:
  "fetchRepositoryReadme e repo st = (r, st')
   \<Longrightarrow> (\<exists>text. r = Inr text) \<and> st' = st\<lparr>trace := trace st @ [Fetch (readme_url repo)]\<rparr>"
  by (auto simp: fetchRepositoryReadme_def fetchRepositoryReadme_try_def fetch_def
      readme_url_def split: option.splits if_splits sum.splits prod.splits json.splits)

lemma fetchRepositoryStructure_returns:
  "fetchRepositoryStructure e repo st = (r, st')
   \<Longrightarrow> (\<exists>listing. r = Inr listing)
       \<and> st' = st\<lparr>trace := trace st @ [Fetch (contents_url repo)]\<rparr>"
  by (auto simp: fetchRepositoryStructure_def fetchRepositoryStructure_try_def fetch_def
      contents_url_def split: option.splits if_splits sum.splits prod.splits)

lemma searchRepositoryContents_returns:
  "searchRepositoryContents e repo query st = (r, st')
   \<Longrightarrow> (\<exists>found. r = Inr found)
       \<and> (st' = st\<lparr>trace := trace st @ [Fetch (search_url repo query)]\<rparr>
          \<or> st' = st\<lparr>trace := trace st @ [Fetch (search_url repo query),
                                            Fetch (contents_url repo)]\<rparr>)"
  by (auto simp: searchRepositoryContents_def searchRepositoryContents_try_def fetch_def
      contents_url_def search_url_def Let_def
      split: option.splits if_splits sum.splits prod.splits)

lemma executeGitHubTools_results:
  assumes "executeGitHubTools e repo query st = (Inr toolResults, st')"
  shows "\<exists>c1 c2 c3 c4 more.
           toolResults = [\<lparr>name = ''fetch_repository_metadata'', content = c1\<rparr>,
                          \<lparr>name = ''fetch_repository_readme'', content = c2\<rparr>,
                          \<lparr>name = ''search_repository_contents'', content = c3\<rparr>,
                          \<lparr>name = ''fetch_repository_structure'', content = c4\<rparr>]
           \<and> trace st' = trace st @ [Fetch (metadata_url repo), Fetch (readme_url repo),
                                       Fetch (search_url repo query)]
                             @ more @ [Fetch (contents_url repo)]
           \<and> (more = [] \<or> more = [Fetch (contents_url repo)])"
proof -
  obtain r1 st1 where f1: "fetchRepositoryMetadata e repo st = (r1, st1)"
    by (cases "fetchRepositoryMetadata e repo st")
  obtain r2 st2 where f2: "fetchRepositoryReadme e repo st1 = (r2, st2)"
    by (cases "fetchRepositoryReadme e repo st1")
  obtain r3 st3 where f3: "searchRepositoryContents e repo query st2 = (r3, st3)"
    by (cases "searchRepositoryContents e repo query st2")
  obtain r4 st4 where f4: "fetchRepositoryStructure e repo st3 = (r4, st4)"
    by (cases "fetchRepositoryStructure e repo st3")
  from assms f1 obtain m where r1: "r1 = Inr m"
    by (cases r1) (auto simp: executeGitHubTools_def)
  from f2 obtain t where r2: "r2 = Inr t"
    using fetchRepositoryReadme_returns by blast
  from f3 obtain s where r3: "r3 = Inr s"
    using searchRepositoryContents_returns by blast
  from f4 obtain l where r4: "r4 = Inr l"
    using fetchRepositoryStructure_returns by blast
  from assms have res: "toolResults =
      [\<lparr>name = ''fetch_repository_metadata'', content = stringify e m\<rparr>,
       \<lparr>name = ''fetch_repository_readme'', content = t\<rparr>,
       \<lparr>name = ''search_repository_contents'', content = stringify e s\<rparr>,
       \<lparr>name = ''fetch_repository_structure'', content = stringify e l\<rparr>]"
    and st': "st' = st4"
    by (simp_all add: executeGitHubTools_def Let_def f1 f2 f3 f4 r1 r2 r3 r4)
  have t1: "trace st1 = trace st @ [Fetch (metadata_url repo)]"
    using fetchRepositoryMetadata_trace [OF f1] by simp
  have t2: "trace st2 = trace st1 @ [Fetch (readme_url repo)]"
    using fetchRepositoryReadme_returns [OF f2] by simp
  have t3: "trace st3 = trace st2 @ [Fetch (search_url repo query)]
            \<or> trace st3 = trace st2 @ [Fetch (search_url repo query), Fetch (contents_url repo)]"
    using searchRepositoryContents_returns [OF f3] by auto
  have t4: "trace st4 = trace st3 @ [Fetch (contents_url repo)]"
    using fetchRepositoryStructure_returns [OF f4] by simp
  from t3 obtain more where more: "trace st3 = trace st2 @ [Fetch (search_url repo query)] @ more"
      "more = [] \<or> more = [Fetch (contents_url repo)]"
    by auto
  have "trace st' = trace st @ [Fetch (metadata_url repo), Fetch (readme_url repo),
                                 Fetch (search_url repo query)]
                      @ more @ [Fetch (contents_url repo)]"
    by (simp add: st' t4 more(1) t2 t1)
  with res more(2) show ?thesis by blast
qed

lemma foldl_add_result_concat:
  "foldl add_result p rs = p @ concat (map (add_result []) rs)"
proof (induction rs arbitrary: p)
  case Nil
  show ?case by simp
next
  case (Cons r rs)
  have "foldl add_result p (r # rs) = foldl add_result (add_result p r) rs" by simp
  also have "\<dots> = add_result p r @ concat (map (add_result []) rs)" by (rule Cons.IH)
  also have "add_result p r = p @ add_result [] r" by (rule add_result_append)
  finally show ?case by simp
qed

lemma add_result_block:
  "name r = n \<Longrightarrow> \<exists>b. add_result [] r = ''--- '' @ n @ '' ---'' @ b"
  by (simp add: add_result_def Let_def)

text \<open>
  Claim C3. Whenever the orchestrator returns its results, they are the four results in the
  order metadata, readme, search, structure; the prompt built from them holds the four section
  markers in that order; and the requests went out one after the other in that order, the
  search being followed by a second request, for the contents, only when it was refused.
  When the metadata request fails the orchestrator raises and no prompt is built.
\<close>

theorem markers_in_order:
  assumes "executeGitHubTools e repo query st = (Inr toolResults, st')"
  shows "map name toolResults = [''fetch_repository_metadata'', ''fetch_repository_readme'',
                                 ''search_repository_contents'', ''fetch_repository_structure'']
         \<and> (\<exists>b c d f. formatToolResultsForLLM query toolResults =
                prompt_intro query @ ''--- fetch_repository_metadata ---'' @ b
                @ ''--- fetch_repository_readme ---'' @ c
                @ ''--- search_repository_contents ---'' @ d
                @ ''--- fetch_repository_structure ---'' @ f)
         \<and> (\<exists>more. trace st' = trace st @ [Fetch (metadata_url repo), Fetch (readme_url repo),
                                            Fetch (search_url repo query)]
                                  @ more @ [Fetch (contents_url repo)]
                    \<and> (more = [] \<or> more = [Fetch (contents_url repo)]))"
proof -
  from executeGitHubTools_results [OF assms]
  obtain c1 c2 c3 c4 more where
    res: "toolResults = [\<lparr>name = ''fetch_repository_metadata'', content = c1\<rparr>,
                         \<lparr>name = ''fetch_repository_readme'', content = c2\<rparr>,
                         \<lparr>name = ''search_repository_contents'', content = c3\<rparr>,
                         \<lparr>name = ''fetch_repository_structure'', content = c4\<rparr>]"
    and tr: "trace st' = trace st @ [Fetch (metadata_url repo), Fetch (readme_url repo),
                                      Fetch (search_url repo query)]
                           @ more @ [Fetch (contents_url repo)]"
            "more = [] \<or> more = [Fetch (contents_url repo)]"
    by blast
  obtain b1 where b1: "add_result [] \<lparr>name = ''fetch_repository_metadata'', content = c1\<rparr>
                       = ''--- '' @ ''fetch_repository_metadata'' @ '' ---'' @ b1"
    using add_result_block [of "\<lparr>name = ''fetch_repository_metadata'', content = c1\<rparr>"]
    by auto
  obtain b2 where b2: "add_result [] \<lparr>name = ''fetch_repository_readme'', content = c2\<rparr>
                       = ''--- '' @ ''fetch_repository_readme'' @ '' ---'' @ b2"
    using add_result_block [of "\<lparr>name = ''fetch_repository_readme'', content = c2\<rparr>"]
    by auto
  obtain b3 where b3: "add_result [] \<lparr>name = ''search_repository_contents'', content = c3\<rparr>
                       = ''--- '' @ ''search_repository_contents'' @ '' ---'' @ b3"
    using add_result_block [of "\<lparr>name = ''search_repository_contents'', content = c3\<rparr>"]
    by auto
  obtain b4 where b4: "add_result [] \<lparr>name = ''fetch_repository_structure'', content = c4\<rparr>
                       = ''--- '' @ ''fetch_repository_structure'' @ '' ---'' @ b4"
    using add_result_block [of "\<lparr>name = ''fetch_repository_structure'', content = c4\<rparr>"]
    by auto
  have "formatToolResultsForLLM query toolResults =
          prompt_intro query @ ''--- fetch_repository_metadata ---'' @ b1
          @ ''--- fetch_repository_readme ---'' @ b2
          @ ''--- search_repository_contents ---'' @ b3
          @ ''--- fetch_repository_structure ---'' @ (b4 @ prompt_outro)"
    unfolding formatToolResultsForLLM_def foldl_add_result_concat res
    by (simp add: b1 b2 b3 b4)
  then have "\<exists>b c d f. formatToolResultsForLLM query toolResults =
                prompt_intro query @ ''--- fetch_repository_metadata ---'' @ b
                @ ''--- fetch_repository_readme ---'' @ c
                @ ''--- search_repository_contents ---'' @ d
                @ ''--- fetch_repository_structure ---'' @ f"
    by (intro exI)
  moreover have "map name toolResults = [''fetch_repository_metadata'', ''fetch_repository_readme'',
                                 ''search_repository_contents'', ''fetch_repository_structure'']"
    by (simp add: res)
  ultimately show ?thesis using tr by blast
qed

theorem markers_in_order_witness:
  "executeGitHubTools (example_env always_ok) ''octo/demo'' ''how do stars work'' st0
     = (Inr [\<lparr>name = ''fetch_repository_metadata'', content = ''{}''\<rparr>,
             \<lparr>name = ''fetch_repository_readme'', content = ''README content not available''\<rparr>,
             \<lparr>name = ''search_repository_contents'', content = ''{}''\<rparr>,
             \<lparr>name = ''fetch_repository_structure'', content = ''{}''\<rparr>],
        st0\<lparr>trace := [Fetch (metadata_url ''octo/demo''), Fetch (readme_url ''octo/demo''),
                        Fetch (search_url ''octo/demo'' ''how do stars work''),
                        Fetch (contents_url ''octo/demo'')]\<rparr>)
   \<and> (\<exists>b c d f. formatToolResultsForLLM ''how do stars work''
            [\<lparr>name = ''fetch_repository_metadata'', content = ''{}''\<rparr>,
             \<lparr>name = ''fetch_repository_readme'', content = ''README content not available''\<rparr>,
             \<lparr>name = ''search_repository_contents'', content = ''{}''\<rparr>,
             \<lparr>name = ''fetch_repository_structure'', content = ''{}''\<rparr>] =
          prompt_intro ''how do stars work'' @ ''--- fetch_repository_metadata ---'' @ b
          @ ''--- fetch_repository_readme ---'' @ c
          @ ''--- search_repository_contents ---'' @ d
          @ ''--- fetch_repository_structure ---'' @ f)"
proof -
  have h: "executeGitHubTools (example_env always_ok) ''octo/demo'' ''how do stars work'' st0
     = (Inr [\<lparr>name = ''fetch_repository_metadata'', content = ''{}''\<rparr>,
             \<lparr>name = ''fetch_repository_readme'', content = ''README content not available''\<rparr>,
             \<lparr>name = ''search_repository_contents'', content = ''{}''\<rparr>,
             \<lparr>name = ''fetch_repository_structure'', content = ''{}''\<rparr>],
        st0\<lparr>trace := [Fetch (metadata_url ''octo/demo''), Fetch (readme_url ''octo/demo''),
                        Fetch (search_url ''octo/demo'' ''how do stars work''),
                        Fetch (contents_url ''octo/demo'')]\<rparr>)"
    by (simp add: executeGitHubTools_def fetchRepositoryMetadata_def
        fetchRepositoryMetadata_try_def fetchRepositoryReadme_def fetchRepositoryReadme_try_def
        searchRepositoryContents_def searchRepositoryContents_try_def
        fetchRepositoryStructure_def fetchRepositoryStructure_try_def fetch_def ok_def
        example_env_def always_ok_def st0_def metadata_url_def readme_url_def search_url_def
        contents_url_def Let_def)
  from markers_in_order [OF h] h show ?thesis by (intro conjI) (elim conjE, assumption)+
qed

lemma fetchRepositoryMetadata_fails:
  "fetch_fails e st (metadata_url repo)
   \<Longrightarrow> fst (fetchRepositoryMetadata e repo st)
       = Inl (case net e (length (trace st)) (metadata_url repo) of
                None \<Rightarrow> FetchFailed | Some r \<Rightarrow> GitHubAPIError (status r))"
  by (auto simp: fetch_fails_def fetchRepositoryMetadata_def fetchRepositoryMetadata_try_def
      fetch_def metadata_url_def split: option.splits)

lemma fetchRepositoryReadme_fails:
  "fetch_fails e st (readme_url repo)
   \<Longrightarrow> fst (fetchRepositoryReadme e repo st)
       = Inr ''Could not fetch README content due to an error''"
  by (auto simp: fetch_fails_def fetchRepositoryReadme_def fetchRepositoryReadme_try_def
      fetch_def readme_url_def split: option.splits)

lemma fetchRepositoryStructure_fails:
  "fetch_fails e st (contents_url repo)
   \<Longrightarrow> fst (fetchRepositoryStructure e repo st) = Inr (JArr [])"
  by (auto simp: fetch_fails_def fetchRepositoryStructure_def fetchRepositoryStructure_try_def
      fetch_def contents_url_def split: option.splits)

lemma tool_fetchRepositoryMetadata_fails:
  "repository_path e (resolve given_owner (repository_owner ctx))
                     (resolve given_repo (repository_name ctx)) = Inr path
   \<Longrightarrow> fetch_fails e st (metadata_url path)
   \<Longrightarrow> fst (tool_fetchRepositoryMetadata e given_owner given_repo ctx st)
       = JObj [(''error'', JStr ''Failed to fetch repository metadata'')]"
  by (auto simp: fetch_fails_def tool_fetchRepositoryMetadata_def
      tool_fetchRepositoryMetadata_try_def fetch_def metadata_url_def Let_def
      split: option.splits)

lemma not_found_fails: "fetch_fails (example_env not_found) st url"
  by (simp add: fetch_fails_def example_env_def not_found_def ok_def)

lemma searchRepositoryContents_unreachable:
  "net e (length (trace st)) (search_url repo query) = None
   \<Longrightarrow> fst (searchRepositoryContents e repo query st) = Inr (JArr [])"
  by (simp add: searchRepositoryContents_def searchRepositoryContents_try_def fetch_def
      search_url_def Let_def)

lemma executeGitHubTools_metadata_fails:
  "fetch_fails e st (metadata_url repo)
   \<Longrightarrow> fst (executeGitHubTools e repo query st)
       = Inl (case net e (length (trace st)) (metadata_url repo) of
                None \<Rightarrow> FetchFailed | Some r \<Rightarrow> GitHubAPIError (status r))"
  using fetchRepositoryMetadata_fails [of e st repo]
  by (cases "fetchRepositoryMetadata e repo st") (simp add: executeGitHubTools_def)

lemma fallbackProcessing_metadata_fails:
  assumes "repoIdentifier_of e owner rp = Inr repo"
    and "fetch_fails e st (metadata_url repo)"
  shows "fst (fallbackProcessing e query owner rp st)
         = json_reply ''error'' ''Failed to process request in fallback mode'' 500"
  using executeGitHubTools_metadata_fails [OF assms(2), of query] assms(1)
  by (cases "executeGitHubTools e repo query st") (simp add: fallbackProcessing_def Let_def)


text \<open>
  Claim C1, amended. Of the four fetchers of the fallback pipeline, three return a value
  whatever the network does: on a failed request the README fetcher returns its sentinel text
  and the structure fetcher the empty list, and the search returns the empty list when its
  request fails on the network. The metadata fetcher of the fallback pipeline raises the
  failure again; the orchestrator raises the same error, and the fallback pipeline answers
  with status 500. It is the agent's tool of the same name that returns an object with an
  error description instead.
\<close>

theorem fetchers_on_failure:
  "(\<exists>text st'. fetchRepositoryReadme e repo st = (Inr text, st'))
   \<and> (\<exists>found st'. searchRepositoryContents e repo query st = (Inr found, st'))
   \<and> (\<exists>listing st'. fetchRepositoryStructure e repo st = (Inr listing, st'))
   \<and> (fetch_fails e st (readme_url repo)
        \<longrightarrow> fst (fetchRepositoryReadme e repo st)
            = Inr ''Could not fetch README content due to an error'')
   \<and> (fetch_fails e st (contents_url repo)
        \<longrightarrow> fst (fetchRepositoryStructure e repo st) = Inr (JArr []))
   \<and> (net e (length (trace st)) (search_url repo query) = None
        \<longrightarrow> fst (searchRepositoryContents e repo query st) = Inr (JArr []))
   \<and> (fetch_fails e st (metadata_url repo)
        \<longrightarrow> fst (fetchRepositoryMetadata e repo st)
              = Inl (case net e (length (trace st)) (metadata_url repo) of
                       None \<Rightarrow> FetchFailed | Some r \<Rightarrow> GitHubAPIError (status r))
            \<and> fst (executeGitHubTools e repo query st)
              = Inl (case net e (length (trace st)) (metadata_url repo) of
                       None \<Rightarrow> FetchFailed | Some r \<Rightarrow> GitHubAPIError (status r))
            \<and> (repoIdentifier_of e owner rp = Inr repo
                 \<longrightarrow> fst (fallbackProcessing e query owner rp st)
                     = \<lparr>status_code = 500,
                        payload = JObj [(''error'',
                                         JStr ''Failed to process request in fallback mode'')]\<rparr>))
   \<and> (repository_path e (resolve given_owner (repository_owner ctx))
                          (resolve given_repo (repository_name ctx)) = Inr path
        \<and> fetch_fails e st (metadata_url path)
        \<longrightarrow> fst (tool_fetchRepositoryMetadata e given_owner given_repo ctx st)
            = JObj [(''error'', JStr ''Failed to fetch repository metadata'')])"
proof (intro conjI impI)
  show "\<exists>text st'. fetchRepositoryReadme e repo st = (Inr text, st')"
    using fetchRepositoryReadme_returns [of e repo st]
    by (cases "fetchRepositoryReadme e repo st") auto
  show "\<exists>found st'. searchRepositoryContents e repo query st = (Inr found, st')"
    using searchRepositoryContents_returns [of e repo query st]
    by (cases "searchRepositoryContents e repo query st") auto
  show "\<exists>listing st'. fetchRepositoryStructure e repo st = (Inr listing, st')"
    using fetchRepositoryStructure_returns [of e repo st]
    by (cases "fetchRepositoryStructure e repo st") auto
next
  assume "fetch_fails e st (readme_url repo)"
  then show "fst (fetchRepositoryReadme e repo st)
             = Inr ''Could not fetch README content due to an error''"
    by (rule fetchRepositoryReadme_fails)
next
  assume "fetch_fails e st (contents_url repo)"
  then show "fst (fetchRepositoryStructure e repo st) = Inr (JArr [])"
    by (rule fetchRepositoryStructure_fails)
next
  assume "net e (length (trace st)) (search_url repo query) = None"
  then show "fst (searchRepositoryContents e repo query st) = Inr (JArr [])"
    by (rule searchRepositoryContents_unreachable)
next
  assume f: "fetch_fails e st (metadata_url repo)"
  then show "fst (fetchRepositoryMetadata e repo st)
              = Inl (case net e (length (trace st)) (metadata_url repo) of
                       None \<Rightarrow> FetchFailed | Some r \<Rightarrow> GitHubAPIError (status r))"
    by (rule fetchRepositoryMetadata_fails)
  from f show "fst (executeGitHubTools e repo query st)
              = Inl (case net e (length (trace st)) (metadata_url repo) of
                       None \<Rightarrow> FetchFailed | Some r \<Rightarrow> GitHubAPIError (status r))"
    by (rule executeGitHubTools_metadata_fails)
  assume "repoIdentifier_of e owner rp = Inr repo"
  from fallbackProcessing_metadata_fails [OF this f, of query]
  show "fst (fallbackProcessing e query owner rp st)
        = \<lparr>status_code = 500,
           payload = JObj [(''error'', JStr ''Failed to process request in fallback mode'')]\<rparr>"
    by (simp add: json_reply_def)
next
  assume "repository_path e (resolve given_owner (repository_owner ctx))
                            (resolve given_repo (repository_name ctx)) = Inr path
          \<and> fetch_fails e st (metadata_url path)"
  then show "fst (tool_fetchRepositoryMetadata e given_owner given_repo ctx st)
             = JObj [(''error'', JStr ''Failed to fetch repository metadata'')]"
    using tool_fetchRepositoryMetadata_fails by blast
qed


theorem fetchers_on_failure_witness:
  "fetch_fails (example_env not_found) st0 (readme_url ''octo/demo'')
   \<and> fetch_fails (example_env not_found) st0 (contents_url ''octo/demo'')
   \<and> fetch_fails (example_env not_found) st0 (metadata_url ''octo/demo'')
   \<and> net (example_env unreachable) (length (trace st0))
         (search_url ''octo/demo'' ''how do stars work'') = None
   \<and> repoIdentifier_of (example_env not_found) (Some (JStr ''octo'')) (Some (JStr ''demo''))
       = Inr ''octo/demo''
   \<and> repository_path (example_env not_found)
         (resolve (Some ''octo'') (repository_owner createDefaultRuntimeContext))
         (resolve None (repository_name createDefaultRuntimeContext)) = Inr ''octo/go-gin-example''
   \<and> fetch_fails (example_env not_found) st0 (metadata_url ''octo/go-gin-example'')
   \<and> fst (fetchRepositoryReadme (example_env not_found) ''octo/demo'' st0)
       = Inr ''Could not fetch README content due to an error''
   \<and> fst (fetchRepositoryStructure (example_env not_found) ''octo/demo'' st0) = Inr (JArr [])
   \<and> fst (searchRepositoryContents (example_env unreachable) ''octo/demo''
             ''how do stars work'' st0) = Inr (JArr [])
   \<and> fst (fetchRepositoryMetadata (example_env not_found) ''octo/demo'' st0)
       = Inl (GitHubAPIError 404)
   \<and> fst (executeGitHubTools (example_env not_found) ''octo/demo'' ''how do stars work'' st0)
       = Inl (GitHubAPIError 404)
   \<and> fst (fallbackProcessing (example_env not_found) ''how do stars work''
             (Some (JStr ''octo'')) (Some (JStr ''demo'')) st0)
       = \<lparr>status_code = 500,
          payload = JObj [(''error'', JStr ''Failed to process request in fallback mode'')]\<rparr>
   \<and> fst (tool_fetchRepositoryMetadata (example_env not_found) (Some ''octo'') None
             createDefaultRuntimeContext st0)
       = JObj [(''error'', JStr ''Failed to fetch repository metadata'')]"
proof -
  have p: "repository_path (example_env not_found)
         (resolve (Some ''octo'') (repository_owner createDefaultRuntimeContext))
         (resolve None (repository_name createDefaultRuntimeContext)) = Inr ''octo/go-gin-example''"
    by (simp add: repository_path_def resolve_def createDefaultRuntimeContext_def example_env_def)
  have r: "repoIdentifier_of (example_env not_found) (Some (JStr ''octo'')) (Some (JStr ''demo''))
       = Inr ''octo/demo''"
    by (simp add: repoIdentifier_of_def repository_path_def example_env_def)
  have n: "net (example_env not_found) (length (trace st0)) (metadata_url ''octo/demo'')
             = Some \<lparr>status = 404, body = None\<rparr>"
    by (simp add: example_env_def not_found_def)
  have u: "net (example_env unreachable) (length (trace st0))
             (search_url ''octo/demo'' ''how do stars work'') = None"
    by (simp add: example_env_def unreachable_def)
  from fetchers_on_failure [of "example_env unreachable" "''octo/demo''" st0
      "''how do stars work''"] u
  have s: "fst (searchRepositoryContents (example_env unreachable) ''octo/demo''
                  ''how do stars work'' st0) = Inr (JArr [])"
    by simp
  from fetchers_on_failure [of "example_env not_found" "''octo/demo''" st0 "''how do stars work''"
      "Some (JStr ''octo'')" "Some (JStr ''demo'')"
      "Some ''octo''" createDefaultRuntimeContext None "''octo/go-gin-example''"]
    p r n u s not_found_fails
  show ?thesis by simp
qed

text \<open>
  Claim C1 as stated fails for the metadata fetcher of the fallback pipeline: on a 404 and on a
  network failure it raises, the orchestrator raises in turn, and the fallback pipeline answers
  with status 500.
\<close>

theorem fetchRepositoryMetadata_raises_counterexample:
  "fst (fetchRepositoryMetadata (example_env not_found) ''octo/demo'' st0)
     = Inl (GitHubAPIError 404)
   \<and> fst (fetchRepositoryMetadata (example_env unreachable) ''octo/demo'' st0) = Inl FetchFailed
   \<and> fst (executeGitHubTools (example_env not_found) ''octo/demo'' ''how do stars work'' st0)
     = Inl (GitHubAPIError 404)
   \<and> fst (fallbackProcessing (example_env not_found) ''how do stars work''
             (Some (JStr ''octo'')) (Some (JStr ''demo'')) st0)
     = json_reply ''error'' ''Failed to process request in fallback mode'' 500"
  by (simp add: fallbackProcessing_def repoIdentifier_of_def repository_path_def
      executeGitHubTools_def fetchRepositoryMetadata_def
      fetchRepositoryMetadata_try_def fetch_def ok_def example_env_def not_found_def
      unreachable_def st0_def Let_def)

lemma searchRepositoryContents_fallback:
  assumes "net e (length (trace st)) (search_url repo query) = Some r" and "\<not> ok r"
  shows "fst (searchRepositoryContents e repo query st)
         = (case net e (Suc (length (trace st))) (contents_url repo) of
              None \<Rightarrow> Inr (JArr [])
            | Some r2 \<Rightarrow>
                if \<not> ok r2 then Inr (JArr [])
                else (case body r2 of None \<Rightarrow> Inr (JArr []) | Some listing \<Rightarrow> Inr listing))"
    and "trace (snd (searchRepositoryContents e repo query st))
         = trace st @ [Fetch (search_url repo query), Fetch (contents_url repo)]"
  using assms
  by (auto simp: searchRepositoryContents_def searchRepositoryContents_try_def fetch_def
      search_url_def contents_url_def Let_def split: option.splits)

lemma tool_searchRepositoryContents_fallback:
  assumes "repository_path e (resolve given_owner (repository_owner ctx))
                             (resolve given_repo (repository_name ctx)) = Inr path"
    and "net e (length (trace st)) (search_url path query) = Some r" and "\<not> ok r"
    and "net e (Suc (length (trace st))) (contents_url path) = Some r2" and "ok r2"
    and "body r2 = Some listing"
  shows "fst (tool_searchRepositoryContents e given_owner given_repo query ctx st)
         = JObj [(''items'', listing),
                 (''note'', JStr ''Fallback to repository contents due to search API limitations'')]"
  using assms
  by (auto simp: tool_searchRepositoryContents_def tool_searchRepositoryContents_try_def fetch_def
      search_url_def contents_url_def Let_def split: option.splits)

text \<open>
  Claim C5, amended. When the code search answers with a status outside 2xx, the search of the
  fallback pipeline requests the contents listing next and returns the parsed listing as it
  is, with no note; it returns the empty list when that second request fails too. The note is
  added by the agent's tool only, which wraps the listing in an object.
\<close>

theorem search_falls_back_to_listing:
  assumes "net e (length (trace st)) (search_url repo query) = Some r" and "\<not> ok r"
  shows "(net e (Suc (length (trace st))) (contents_url repo) = Some r2 \<and> ok r2
            \<and> body r2 = Some listing
          \<longrightarrow> fst (searchRepositoryContents e repo query st) = Inr listing)
       \<and> (net e (Suc (length (trace st))) (contents_url repo) = None
            \<or> (net e (Suc (length (trace st))) (contents_url repo) = Some r2 \<and> \<not> ok r2)
          \<longrightarrow> fst (searchRepositoryContents e repo query st) = Inr (JArr []))
       \<and> trace (snd (searchRepositoryContents e repo query st))
          = trace st @ [Fetch (search_url repo query), Fetch (contents_url repo)]
       \<and> (repository_path e (resolve given_owner (repository_owner ctx))
                              (resolve given_repo (repository_name ctx)) = Inr repo
            \<and> net e (Suc (length (trace st))) (contents_url repo) = Some r2 \<and> ok r2
            \<and> body r2 = Some listing
          \<longrightarrow> fst (tool_searchRepositoryContents e given_owner given_repo query ctx st)
              = JObj [(''items'', listing),
                      (''note'',
                       JStr ''Fallback to repository contents due to search API limitations'')])"
proof (intro conjI impI)
  assume "net e (Suc (length (trace st))) (contents_url repo) = Some r2 \<and> ok r2
          \<and> body r2 = Some listing"
  then show "fst (searchRepositoryContents e repo query st) = Inr listing"
    by (simp add: searchRepositoryContents_fallback(1) [OF assms])
next
  assume "net e (Suc (length (trace st))) (contents_url repo) = None
          \<or> (net e (Suc (length (trace st))) (contents_url repo) = Some r2 \<and> \<not> ok r2)"
  then show "fst (searchRepositoryContents e repo query st) = Inr (JArr [])"
    by (auto simp: searchRepositoryContents_fallback(1) [OF assms])
next
  show "trace (snd (searchRepositoryContents e repo query st))
        = trace st @ [Fetch (search_url repo query), Fetch (contents_url repo)]"
    by (rule searchRepositoryContents_fallback(2) [OF assms])
next
  assume "repository_path e (resolve given_owner (repository_owner ctx))
                              (resolve given_repo (repository_name ctx)) = Inr repo
            \<and> net e (Suc (length (trace st))) (contents_url repo) = Some r2 \<and> ok r2
            \<and> body r2 = Some listing"
  then show "fst (tool_searchRepositoryContents e given_owner given_repo query ctx st)
              = JObj [(''items'', listing),
                      (''note'',
                       JStr ''Fallback to repository contents due to search API limitations'')]"
    using assms by (auto intro: tool_searchRepositoryContents_fallback)
qed

lemma search_limited_search:
  "search_limited n (search_url repo query) = Some \<lparr>status = 403, body = None\<rparr>"
  by (simp add: search_limited_def search_url_def)

lemma search_limited_contents:
  "search_limited n (contents_url repo) = Some \<lparr>status = 200, body = Some example_listing\<rparr>"
  by (simp add: search_limited_def contents_url_def)

theorem search_falls_back_to_listing_witness:
  "net (example_env search_limited) (length (trace st0))
       (search_url ''octo/demo'' ''how do stars work'') = Some \<lparr>status = 403, body = None\<rparr>
   \<and> \<not> ok \<lparr>status = 403, body = None\<rparr>
   \<and> net (example_env search_limited) (Suc (length (trace st0))) (contents_url ''octo/demo'')
       = Some \<lparr>status = 200, body = Some example_listing\<rparr>
   \<and> ok \<lparr>status = 200, body = Some example_listing\<rparr>
   \<and> repository_path (example_env search_limited)
         (resolve (Some ''octo'') (repository_owner createDefaultRuntimeContext))
         (resolve (Some ''demo'') (repository_name createDefaultRuntimeContext)) = Inr ''octo/demo''
   \<and> fst (searchRepositoryContents (example_env search_limited) ''octo/demo''
             ''how do stars work'' st0) = Inr example_listing
   \<and> fst (searchRepositoryContents (example_env not_found) ''octo/demo''
             ''how do stars work'' st0) = Inr (JArr [])
   \<and> fst (tool_searchRepositoryContents (example_env search_limited) (Some ''octo'')
             (Some ''demo'') ''how do stars work'' createDefaultRuntimeContext st0)
       = JObj [(''items'', example_listing),
               (''note'', JStr ''Fallback to repository contents due to search API limitations'')]"
proof -
  have a: "net (example_env search_limited) (length (trace st0))
             (search_url ''octo/demo'' ''how do stars work'') = Some \<lparr>status = 403, body = None\<rparr>"
    by (simp add: example_env_def search_limited_search)
  have b: "\<not> ok \<lparr>status = 403, body = None\<rparr>" by (simp add: ok_def)
  have c: "net (example_env search_limited) (Suc (length (trace st0))) (contents_url ''octo/demo'')
             = Some \<lparr>status = 200, body = Some example_listing\<rparr>"
    by (simp add: example_env_def search_limited_contents)
  have d: "ok \<lparr>status = 200, body = Some example_listing\<rparr>" by (simp add: ok_def)
  have p: "repository_path (example_env search_limited)
         (resolve (Some ''octo'') (repository_owner createDefaultRuntimeContext))
         (resolve (Some ''demo'') (repository_name createDefaultRuntimeContext)) = Inr ''octo/demo''"
    by (simp add: repository_path_def resolve_def example_env_def)
  have a': "net (example_env not_found) (length (trace st0))
             (search_url ''octo/demo'' ''how do stars work'') = Some \<lparr>status = 404, body = None\<rparr>"
    by (simp add: example_env_def not_found_def)
  have b': "\<not> ok \<lparr>status = 404, body = None\<rparr>" by (simp add: ok_def)
  have c': "net (example_env not_found) (Suc (length (trace st0))) (contents_url ''octo/demo'')
             = Some \<lparr>status = 404, body = None\<rparr>"
    by (simp add: example_env_def not_found_def)
  from search_falls_back_to_listing [OF a b,
      of "\<lparr>status = 200, body = Some example_listing\<rparr>" example_listing
         "Some ''octo''" createDefaultRuntimeContext "Some ''demo''"]
    search_falls_back_to_listing [OF a' b', of "\<lparr>status = 404, body = None\<rparr>"]
    a b c d p c' b'
  show ?thesis by simp
qed

text \<open>
  Claim C5 as stated fails: with the code search rate limited and the contents request
  answered, the search of the fallback pipeline returns the listing itself, an array, and
  nothing in it is a note.
\<close>

theorem search_fallback_note_counterexample:
  "fst (searchRepositoryContents (example_env search_limited) ''octo/demo''
          ''how do stars work'' st0) = Inr example_listing
   \<and> get_property example_listing ''note'' = Inr None"
proof
  have a: "net (example_env search_limited) (length (trace st0))
             (search_url ''octo/demo'' ''how do stars work'') = Some \<lparr>status = 403, body = None\<rparr>"
    by (simp add: example_env_def search_limited_search)
  have b: "\<not> ok \<lparr>status = 403, body = None\<rparr>" by (simp add: ok_def)
  have c: "net (example_env search_limited) (Suc (length (trace st0))) (contents_url ''octo/demo'')
             = Some \<lparr>status = 200, body = Some example_listing\<rparr>"
    by (simp add: example_env_def search_limited_contents)
  show "fst (searchRepositoryContents (example_env search_limited) ''octo/demo''
          ''how do stars work'' st0) = Inr example_listing"
    unfolding searchRepositoryContents_fallback(1) [OF a b] c by (simp add: ok_def)
  show "get_property example_listing ''note'' = Inr None"
    by (simp add: example_listing_def)
qed

section \<open>Properties of the request handler\<close>

lemma get_property_not_null: "b \<noteq> JNull \<Longrightarrow> \<exists>v. get_property b key = Inr v"
  by (cases b) simp_all

text \<open>
  Claim C9, amended. For every request whose body has properties, that is every parsed body
  other than \<open>null\<close>, and whose query is missing, empty or not a string, the handler
  answers at once with status 400 and \<open>{error: "Invalid query parameter"}\<close>; the state of
  the module is as it was, so no construction was started, nothing was fetched and neither the
  agent flow nor the fallback pipeline was entered; and a request that has its reply does
  nothing more. A body that does not parse, and the body \<open>null\<close>, have no query to read: they
  are answered with status 500 and \<open>{error: "Failed to process request"}\<close>.
\<close>

theorem invalid_query_rejected:
  "(b \<noteq> JNull \<and> get_property b ''query'' = Inr query
      \<and> (query = None \<or> query = Some (JStr []) \<or> (\<exists>v. query = Some v \<and> (\<forall>s. v \<noteq> JStr s)))
     \<longrightarrow> POST (Some b) st
         = (Replied \<lparr>status_code = 400,
                     payload = JObj [(''error'', JStr ''Invalid query parameter'')]\<rparr>, st))
   \<and> POST None st
       = (Replied \<lparr>status_code = 500,
                   payload = JObj [(''error'', JStr ''Failed to process request'')]\<rparr>, st)
   \<and> POST (Some JNull) st
       = (Replied \<lparr>status_code = 500,
                   payload = JObj [(''error'', JStr ''Failed to process request'')]\<rparr>, st)
   \<and> resume e (Replied r) st' = (Replied r, st')"
proof (intro conjI impI)
  assume a: "b \<noteq> JNull \<and> get_property b ''query'' = Inr query
      \<and> (query = None \<or> query = Some (JStr []) \<or> (\<exists>v. query = Some v \<and> (\<forall>s. v \<noteq> JStr s)))"
  then obtain owner where o: "get_property b ''owner'' = Inr owner"
    using get_property_not_null by blast
  from a obtain repo where r: "get_property b ''repo'' = Inr repo"
    using get_property_not_null by blast
  from a show "POST (Some b) st
         = (Replied \<lparr>status_code = 400,
                     payload = JObj [(''error'', JStr ''Invalid query parameter'')]\<rparr>, st)"
    by (auto simp: POST_def Let_def o r json_reply_def split: option.splits json.splits)
next
  show "POST None st
       = (Replied \<lparr>status_code = 500,
                   payload = JObj [(''error'', JStr ''Failed to process request'')]\<rparr>, st)"
    by (simp add: POST_def json_reply_def)
  show "POST (Some JNull) st
       = (Replied \<lparr>status_code = 500,
                   payload = JObj [(''error'', JStr ''Failed to process request'')]\<rparr>, st)"
    by (simp add: POST_def json_reply_def)
  show "resume e (Replied r) st' = (Replied r, st')"
    by (simp add: resume_def)
qed

theorem invalid_query_rejected_witness:
  "POST (Some (JObj [(''owner'', JStr ''octo'')])) st0
     = (Replied \<lparr>status_code = 400,
                 payload = JObj [(''error'', JStr ''Invalid query parameter'')]\<rparr>, st0)
   \<and> POST (Some (JObj [(''query'', JStr [])])) st0
     = (Replied \<lparr>status_code = 400,
                 payload = JObj [(''error'', JStr ''Invalid query parameter'')]\<rparr>, st0)
   \<and> POST (Some (JObj [(''query'', JNum 5)])) st0
     = (Replied \<lparr>status_code = 400,
                 payload = JObj [(''error'', JStr ''Invalid query parameter'')]\<rparr>, st0)"
  using invalid_query_rejected [of "JObj [(''owner'', JStr ''octo'')]" None st0]
    invalid_query_rejected [of "JObj [(''query'', JStr [])]" "Some (JStr [])" st0]
    invalid_query_rejected [of "JObj [(''query'', JNum 5)]" "Some (JNum 5)" st0]
  by simp

text \<open>
  Claim C9 as stated fails for the body \<open>null\<close> and for a body that is not JSON: there the
  query is missing, reading it raises, and the answer is status 500, not 400.
\<close>

theorem missing_body_counterexample:
  "get_property JNull ''query'' = Inl TypeError
   \<and> POST (Some JNull) st0
       = (Replied \<lparr>status_code = 500,
                   payload = JObj [(''error'', JStr ''Failed to process request'')]\<rparr>, st0)
   \<and> POST None st0
       = (Replied \<lparr>status_code = 500,
                   payload = JObj [(''error'', JStr ''Failed to process request'')]\<rparr>, st0)"
  by (simp add: POST_def json_reply_def)

lemma quiet_refl: "quiet st st"
  unfolding quiet_def by (rule exI [of _ "[]"]) simp

lemma quiet_trans:
  assumes "quiet st st1" and "quiet st1 st2"
  shows "quiet st st2"
proof -
  from assms(1) obtain evs1
    where 1: "st1 = st\<lparr>trace := trace st @ evs1\<rparr>" "CreateGitHubAgent \<notin> set evs1"
    unfolding quiet_def by blast
  from assms(2) obtain evs2
    where 2: "st2 = st1\<lparr>trace := trace st1 @ evs2\<rparr>" "CreateGitHubAgent \<notin> set evs2"
    unfolding quiet_def by blast
  have "st2 = st\<lparr>trace := trace st @ (evs1 @ evs2)\<rparr> \<and> CreateGitHubAgent \<notin> set (evs1 @ evs2)"
    using 1 2 by simp
  thus ?thesis unfolding quiet_def by (rule exI)
qed

lemma quiet_fetches: "quiet st (st\<lparr>trace := trace st @ map Fetch urls\<rparr>)"
  unfolding quiet_def by (rule exI [of _ "map Fetch urls"]) auto

lemma fetchRepositoryMetadata_quiet: "quiet st (snd (fetchRepositoryMetadata e repo st))"
  using fetchRepositoryMetadata_trace [of e repo st] quiet_fetches [of st "[metadata_url repo]"]
  by (cases "fetchRepositoryMetadata e repo st") simp

lemma fetchRepositoryReadme_quiet: "quiet st (snd (fetchRepositoryReadme e repo st))"
  using fetchRepositoryReadme_returns [of e repo st] quiet_fetches [of st "[readme_url repo]"]
  by (cases "fetchRepositoryReadme e repo st") simp

lemma fetchRepositoryStructure_quiet: "quiet st (snd (fetchRepositoryStructure e repo st))"
  using fetchRepositoryStructure_returns [of e repo st] quiet_fetches [of st "[contents_url repo]"]
  by (cases "fetchRepositoryStructure e repo st") simp

lemma searchRepositoryContents_quiet: "quiet st (snd (searchRepositoryContents e repo query st))"
  using searchRepositoryContents_returns [of e repo query st]
    quiet_fetches [of st "[search_url repo query]"]
    quiet_fetches [of st "[search_url repo query, contents_url repo]"]
  by (cases "searchRepositoryContents e repo query st") auto

lemma executeGitHubTools_quiet: "quiet st (snd (executeGitHubTools e repo query st))"
proof -
  obtain r1 st1 where f1: "fetchRepositoryMetadata e repo st = (r1, st1)"
    by (cases "fetchRepositoryMetadata e repo st")
  obtain r2 st2 where f2: "fetchRepositoryReadme e repo st1 = (r2, st2)"
    by (cases "fetchRepositoryReadme e repo st1")
  obtain r3 st3 where f3: "searchRepositoryContents e repo query st2 = (r3, st3)"
    by (cases "searchRepositoryContents e repo query st2")
  obtain r4 st4 where f4: "fetchRepositoryStructure e repo st3 = (r4, st4)"
    by (cases "fetchRepositoryStructure e repo st3")
  have q1: "quiet st st1" using fetchRepositoryMetadata_quiet [of st e repo] by (simp add: f1)
  have q2: "quiet st1 st2" using fetchRepositoryReadme_quiet [of st1 e repo] by (simp add: f2)
  have q3: "quiet st2 st3"
    using searchRepositoryContents_quiet [of st2 e repo query] by (simp add: f3)
  have q4: "quiet st3 st4" using fetchRepositoryStructure_quiet [of st3 e repo] by (simp add: f4)
  note q12 = quiet_trans [OF q1 q2]
  note q13 = quiet_trans [OF q12 q3]
  note q14 = quiet_trans [OF q13 q4]
  have "snd (executeGitHubTools e repo query st) \<in> {st1, st2, st3, st4}"
    by (simp add: executeGitHubTools_def Let_def f1 f2 f3 f4 split: sum.splits)
  with q1 q12 q13 q14 show ?thesis by auto
qed

lemma snd_case_result:
  "snd (case p of (Inl a, s) \<Rightarrow> (f a, s) | (Inr b, s) \<Rightarrow> (g b, s)) = snd p"
  by (cases p; cases "fst p") auto

lemma fallbackProcessing_state:
  "snd (fallbackProcessing e query owner repo st) = st
   \<or> (\<exists>repoIdentifier. snd (fallbackProcessing e query owner repo st)
                          = snd (executeGitHubTools e repoIdentifier query st))"
  by (cases "repoIdentifier_of e owner repo")
    (auto simp: fallbackProcessing_def Let_def snd_case_result)

lemma fallbackProcessing_quiet: "quiet st (snd (fallbackProcessing e query owner repo st))"
  using fallbackProcessing_state [of e query owner repo st] executeGitHubTools_quiet [of st e]
  by (auto simp: quiet_refl)

lemma quiet_calm: "quiet st st' \<Longrightarrow> calm st st'"
  by (auto simp: quiet_def calm_def)

lemma calm_refl: "calm st st"
  by (simp add: calm_def)

lemma calm_trans: "calm st st1 \<Longrightarrow> calm st1 st2 \<Longrightarrow> calm st st2"
  by (auto simp: calm_def)

lemma fall_back_calm: "calm st (snd (fall_back e query owner repo st))"
  using fallbackProcessing_quiet [of st e query owner repo]
  by (cases "fallbackProcessing e query owner repo st") (simp add: fall_back_def quiet_calm)

lemma remember_repository_calm: "calm st (remember_repository owner repo components st)"
  by (auto simp: remember_repository_def calm_def split: option.splits)

lemma with_components_calm: "calm st (snd (with_components e components query owner repo st))"
proof -
  let ?st1 = "remember_repository owner repo components st"
  have q1: "calm st ?st1" by (rule remember_repository_calm)
  have f1: "calm st (snd (fall_back e query owner repo ?st1))"
    using calm_trans [OF q1 fall_back_calm] .
  have "calm ?st1 (?st1\<lparr>trace := trace ?st1 @ [Fetch ''http://localhost:11434/api/version'']\<rparr>)"
    by (simp add: calm_def)
  with q1
  have q2: "calm st (?st1\<lparr>trace := trace ?st1 @ [Fetch ''http://localhost:11434/api/version'']\<rparr>)"
    by (rule calm_trans)
  show ?thesis
    using f1 q2 by (simp add: with_components_def Let_def split: sum.splits)
qed

lemma probe_answered_calm: "calm st (snd (probe_answered e components query owner repo st))"
proof -
  have q2: "\<And>a ctx. calm st (st\<lparr>trace := trace st @ [Generate a query ctx]\<rparr>)"
    by (simp add: calm_def)
  show ?thesis
    using fall_back_calm [of st e query owner repo] q2
    by (simp add: probe_answered_def Let_def split: option.splits)
qed

lemma generate_answered_calm: "calm st (snd (generate_answered e a ctx query owner repo st))"
  by (simp add: generate_answered_def fall_back_calm calm_refl split: sum.splits)

lemma resume_calm: "calm st (snd (resume e at st))"
  by (cases at)
    (simp_all add: resume_def with_components_calm probe_answered_calm generate_answered_calm
      fall_back_calm calm_refl split: option.splits promise.splits)

lemma calm_one_construction: "calm st st' \<Longrightarrow> one_construction st \<Longrightarrow> one_construction st'"
  by (simp add: calm_def one_construction_def)


lemma getMastraComponents_cached:
  "mastraPromise st = Some p \<Longrightarrow> getMastraComponents st = (p, st)"
  by (simp add: getMastraComponents_def)

lemma getMastraComponents_empty:
  "mastraPromise st = None
   \<Longrightarrow> getMastraComponents st
       = (next_promise st,
          st\<lparr>promises := (promises st)(next_promise st \<mapsto> Pending),
             next_promise := Suc (next_promise st),
             trace := trace st @ [CreateGitHubAgent],
             mastraPromise := Some (next_promise st)\<rparr>)"
  by (simp add: getMastraComponents_def initializeMastra_def Let_def)

lemma getMastraComponents_one_construction:
  assumes "one_construction st"
  shows "one_construction (snd (getMastraComponents st))"
proof (cases "mastraPromise st")
  case None
  with assms show ?thesis
    by (auto simp: getMastraComponents_empty one_construction_def)
next
  case (Some p)
  with assms show ?thesis by (simp add: getMastraComponents_cached)
qed

lemma POST_state:
  "snd (POST request st) = st \<or> snd (POST request st) = snd (getMastraComponents st)"
  by (cases "getMastraComponents st")
    (auto simp: POST_def Let_def split: option.splits sum.splits json.splits)

lemma POST_one_construction:
  "one_construction st \<Longrightarrow> one_construction (snd (POST request st))"
  using POST_state [of request st] getMastraComponents_one_construction [of st] by auto

lemma settle_one_construction:
  assumes "one_construction st"
  shows "one_construction (settle e p st)"
proof (cases "promises st p = Some Pending")
  case False
  hence "settle e p st = st"
    by (auto simp: settle_def split: option.splits promise.splits)
  with assms show ?thesis by simp
next
  case True
  with assms have cached: "mastraPromise st = Some p"
    by (simp add: one_construction_def)
  with assms have others: "\<And>q. promises st q = Some Pending \<Longrightarrow> q = p"
    by (auto simp: one_construction_def)
  from assms True have below: "\<And>q. next_promise st \<le> q \<Longrightarrow> q \<noteq> p"
    by (auto simp: one_construction_def)
  from assms have none: "\<And>q. next_promise st \<le> q \<Longrightarrow> promises st q = None"
    by (simp add: one_construction_def)
  show ?thesis
  proof (cases "agent_factory e (length (trace st))")
    case (Inl error)
    hence eq: "settle e p st
                 = st\<lparr>promises := (promises st)(p \<mapsto> Rejected error), mastraPromise := None\<rparr>"
      using True by (simp add: settle_def)
    have 1: "\<forall>q. promises (settle e p st) q = Some Pending
                  \<longrightarrow> mastraPromise (settle e p st) = Some q"
      unfolding eq using others by auto
    have 2: "\<forall>q. mastraPromise (settle e p st) = Some q
                  \<longrightarrow> promises (settle e p st) q = Some Pending
                      \<or> (\<exists>h. promises (settle e p st) q = Some (Fulfilled h))"
      unfolding eq by simp
    have 3: "\<forall>q. next_promise (settle e p st) \<le> q \<longrightarrow> promises (settle e p st) q = None"
      unfolding eq using below none by simp
    from 1 2 3 show ?thesis unfolding one_construction_def by (intro conjI)
  next
    case (Inr a)
    hence eq: "settle e p st
                 = st\<lparr>promises := (promises st)(p \<mapsto> Fulfilled \<lparr>githubAgent = a, runtimeContext = p\<rparr>),
                      contexts := (contexts st)(p := createDefaultRuntimeContext)\<rparr>"
      using True by (simp add: settle_def)
    have 1: "\<forall>q. promises (settle e p st) q = Some Pending
                  \<longrightarrow> mastraPromise (settle e p st) = Some q"
      unfolding eq using others by auto
    have 2: "\<forall>q. mastraPromise (settle e p st) = Some q
                  \<longrightarrow> promises (settle e p st) q = Some Pending
                      \<or> (\<exists>h. promises (settle e p st) q = Some (Fulfilled h))"
      unfolding eq using cached by simp
    have 3: "\<forall>q. next_promise (settle e p st) \<le> q \<longrightarrow> promises (settle e p st) q = None"
      unfolding eq using below none by simp
    from 1 2 3 show ?thesis unfolding one_construction_def by (intro conjI)
  qed
qed

lemma step_one_construction:
  assumes "one_construction (shared sys)"
  shows "one_construction (shared (step e sys a))"
proof (cases a)
  case (Arrive request)
  with POST_one_construction [OF assms, of request] show ?thesis
    by (cases "POST request (shared sys)") simp
next
  case (Settle p)
  with settle_one_construction [OF assms] show ?thesis by simp
next
  case (Resume r)
  with calm_one_construction [OF resume_calm assms, of e "requests sys ! r"] assms
  show ?thesis
    by (cases "resume e (requests sys ! r) (shared sys)") simp
qed

lemma run_one_construction:
  "one_construction (shared sys) \<Longrightarrow> one_construction (shared (run e sys actions))"
  unfolding run_def
  by (induction actions arbitrary: sys) (simp_all add: step_one_construction)

lemma idle_one_construction: "one_construction (shared idle)"
  by (simp add: idle_def st0_def one_construction_def)

text \<open>
  The part of claim C4 on the cached components holds under every interleaving. At most one
  construction is under way at any moment, whatever requests arrive and in whatever order they
  go on.
\<close>

lemma one_construction_at_a_time:
  assumes "promises (shared (run e idle actions)) p = Some Pending"
    and "promises (shared (run e idle actions)) q = Some Pending"
  shows "p = q"
proof -
  define st where "st = shared (run e idle actions)"
  have "one_construction st"
    unfolding st_def using idle_one_construction by (rule run_one_construction)
  hence *: "\<And>r. promises st r = Some Pending \<Longrightarrow> mastraPromise st = Some r"
    unfolding one_construction_def by blast
  from assms(1) have 1: "mastraPromise st = Some p"
    unfolding st_def [symmetric] by (rule *)
  from assms(2) have 2: "mastraPromise st = Some q"
    unfolding st_def [symmetric] by (rule *)
  from 1 2 show ?thesis by simp
qed

text \<open>
  Once the components are there they are reused: whatever happens afterwards, the variable
  and the promises stay as they are and no construction is started.
\<close>

lemma calm_components_cached:
  assumes "calm st st'" and "components_cached p h st"
  shows "components_cached p h st'"
proof -
  have 1: "one_construction st'"
    using calm_one_construction [OF assms(1)] assms(2) by (simp add: components_cached_def)
  have 2: "mastraPromise st' = Some p \<and> promises st' p = Some (Fulfilled h)"
    using assms by (simp add: calm_def components_cached_def)
  from 1 2 show ?thesis by (simp add: components_cached_def)
qed

lemma POST_cached:
  assumes "mastraPromise st = Some p"
  shows "snd (POST request st) = st"
  using POST_state [of request st] getMastraComponents_cached [OF assms] by auto

lemma settle_cached:
  assumes "components_cached p h st"
  shows "settle e q st = st"
proof -
  from assms have "promises st q \<noteq> Some Pending"
    by (auto simp: components_cached_def one_construction_def)
  thus ?thesis by (auto simp: settle_def split: option.splits promise.splits)
qed

lemma step_cached:
  assumes "components_cached p h (shared sys)"
  shows "calm (shared sys) (shared (step e sys a))"
proof (cases a)
  case (Arrive request)
  from assms have "mastraPromise (shared sys) = Some p" by (simp add: components_cached_def)
  from POST_cached [OF this, of request] Arrive show ?thesis
    by (cases "POST request (shared sys)") (simp add: calm_refl)
next
  case (Settle q)
  with settle_cached [OF assms] show ?thesis by (simp add: calm_refl)
next
  case (Resume r)
  with resume_calm [of "shared sys" e "requests sys ! r"] show ?thesis
    by (cases "resume e (requests sys ! r) (shared sys)") (simp add: calm_refl)
qed

lemma run_cached:
  "components_cached p h (shared sys) \<Longrightarrow> calm (shared sys) (shared (run e sys actions))"
proof (induction actions arbitrary: sys)
  case Nil
  show ?case by (simp add: run_def calm_refl)
next
  case (Cons a actions)
  have 1: "calm (shared sys) (shared (step e sys a))"
    using step_cached [OF Cons.prems] .
  have "components_cached p h (shared (step e sys a))"
    using calm_components_cached [OF 1 Cons.prems] .
  from Cons.IH [OF this] have "calm (shared (step e sys a)) (shared (run e (step e sys a) actions))" .
  with 1 show ?case by (simp add: run_def calm_trans)
qed

text \<open>
  A construction that fails empties the variable, and the next call of
  \<open>getMastraComponents\<close> starts a new one.
\<close>

lemma failed_construction_retried:
  assumes "promises st p = Some Pending"
    and "agent_factory e (length (trace st)) = Inl error"
  shows "mastraPromise (settle e p st) = None
         \<and> promises (settle e p st) p = Some (Rejected error)
         \<and> trace (snd (getMastraComponents (settle e p st))) = trace st @ [CreateGitHubAgent]"
  using assms by (simp add: settle_def getMastraComponents_empty)

text \<open>
  The context object is part of the components, and so is shared: what one request writes
  into it is what the agent is given by any request that holds the same components and comes
  to its call next, whatever repository that request named itself.
\<close>

lemma context_shared_between_requests:
  assumes "truthy (Some ow)" and "truthy (Some rp)"
    and "net e (length (trace st)) ''http://localhost:11434/api/version'' = Some r" and "ok r"
  shows "fst (probe_answered e h query owner repo
                (remember_repository (Some ow) (Some rp) h st))
         = AwaitGenerate (githubAgent h) \<lparr>repository_owner = ow, repository_name = rp\<rparr>
             query owner repo"
  using assms by (simp add: probe_answered_def remember_repository_def Let_def)

lemmas run_defs =
  run_def idle_def st0_def agent_env_def flaky_env_def always_ok_def
  request_with_repository_def request_without_repository_def request_for_other_repository_def
  POST_def getMastraComponents_def initializeMastra_def settle_def resume_def
  with_components_def remember_repository_def probe_answered_def generate_answered_def
  fall_back_def repository_path_def fetch_def ok_def json_reply_def
  createDefaultRuntimeContext_def Let_def

text \<open>
  Claim C4. The repository a request works on is not local to the request on the agent's
  path. Two requests are served at the same time, the first for \<open>octo/demo\<close>, the second
  for \<open>other/repo\<close>; one construction serves both. The first writes its repository into the
  context and waits for the liveness probe; the second writes its own; the first then calls
  the agent, with \<open>other/repo\<close>. Also without any overlap: a request that names no
  repository, coming after one for \<open>octo/demo\<close>, has the agent called for \<open>octo/demo\<close>,
  and for the default repository when it comes first. The fallback pipeline, in contrast,
  computes the repository from the request alone.
\<close>

theorem repository_overwritten_by_other_request:
  "requests (run agent_env idle
      [Arrive request_with_repository, Arrive request_for_other_repository,
       Settle 0, Resume 0, Resume 1, Resume 0]) ! 0
     = AwaitGenerate (Agent ''GitHubAgent'')
         \<lparr>repository_owner = JStr ''other'', repository_name = JStr ''repo''\<rparr>
         ''How do I run this?'' (Some (JStr ''octo'')) (Some (JStr ''demo''))
   \<and> trace (shared (run agent_env idle
      [Arrive request_with_repository, Arrive request_for_other_repository,
       Settle 0, Resume 0, Resume 1, Resume 0]))
     = [CreateGitHubAgent,
        Fetch ''http://localhost:11434/api/version'',
        Fetch ''http://localhost:11434/api/version'',
        Generate (Agent ''GitHubAgent'') ''How do I run this?''
          \<lparr>repository_owner = JStr ''other'', repository_name = JStr ''repo''\<rparr>]
   \<and> trace (shared (run agent_env idle
      [Arrive request_with_repository, Settle 0, Resume 0, Resume 0, Resume 0,
       Arrive request_without_repository, Resume 1, Resume 1]))
     = [CreateGitHubAgent,
        Fetch ''http://localhost:11434/api/version'',
        Generate (Agent ''GitHubAgent'') ''How do I run this?''
          \<lparr>repository_owner = JStr ''octo'', repository_name = JStr ''demo''\<rparr>,
        Fetch ''http://localhost:11434/api/version'',
        Generate (Agent ''GitHubAgent'') ''How do I run this?''
          \<lparr>repository_owner = JStr ''octo'', repository_name = JStr ''demo''\<rparr>]
   \<and> requests (run agent_env idle
      [Arrive request_with_repository, Settle 0, Resume 0, Resume 0, Resume 0,
       Arrive request_without_repository, Resume 1, Resume 1])
     = [Replied \<lparr>status_code = 200, payload = JObj [(''response'', JStr ''an answer'')]\<rparr>,
        AwaitGenerate (Agent ''GitHubAgent'')
          \<lparr>repository_owner = JStr ''octo'', repository_name = JStr ''demo''\<rparr>
          ''How do I run this?'' None None]
   \<and> trace (shared (run agent_env idle
      [Arrive request_without_repository, Settle 0, Resume 0, Resume 0]))
     = [CreateGitHubAgent,
        Fetch ''http://localhost:11434/api/version'',
        Generate (Agent ''GitHubAgent'') ''How do I run this?''
          \<lparr>repository_owner = JStr ''eddycjy'', repository_name = JStr ''go-gin-example''\<rparr>]"
  by (simp add: run_defs)

lemma concurrent_arrivals_share_one_construction:
  "requests (run agent_env idle [Arrive request_with_repository, Arrive request_for_other_repository])
     = [AwaitComponents 0 ''How do I run this?'' (Some (JStr ''octo'')) (Some (JStr ''demo'')),
        AwaitComponents 0 ''What features does it have?'' (Some (JStr ''other'')) (Some (JStr ''repo''))]
   \<and> trace (shared (run agent_env idle
               [Arrive request_with_repository, Arrive request_for_other_repository]))
     = [CreateGitHubAgent]"
  by (simp add: run_defs)

lemma construction_retried:
  "trace (shared (run flaky_env idle
      [Arrive request_without_repository, Settle 0, Arrive request_without_repository]))
     = [CreateGitHubAgent, CreateGitHubAgent]
   \<and> mastraPromise (shared (run flaky_env idle
      [Arrive request_without_repository, Settle 0])) = None
   \<and> mastraPromise (shared (run flaky_env idle
      [Arrive request_without_repository, Settle 0, Arrive request_without_repository])) = Some 1"
  by (simp add: run_defs)

end
